theory Spec2Isabelle
  imports Complex_Main "HOL-Library.Word"
begin

section \<open>The daily scheduler (\<open>scheduleDaily\<close>)\<close>

text \<open>
  Both bot entry points carry the same \<open>scheduleDaily\<close>. Instants are wall-clock
  readings in nanoseconds since the Unix epoch, as Go's \<open>time.Time\<close> keeps them, and a
  \<open>time.Duration\<close> is a number of nanoseconds. They are modelled as unbounded integers:
  the sixty-four bit range of a duration (about 292 years) is not reached by any
  difference formed here.
\<close>

type_synonym instant = int
type_synonym duration = int

definition Second :: duration where
  "Second = 1000000000"

definition Minute :: duration where
  "Minute = 60 * Second"

definition Hour :: duration where
  "Hour = 60 * Minute"

definition DAILY_HOUR :: int where
  "DAILY_HOUR = 10"

definition DAILY_MINUTE :: int where
  "DAILY_MINUTE = 0"

subsection \<open>Locations\<close>

text \<open>
  A \<open>time.Location\<close>: the offset (seconds east of UTC) in force before the first
  transition, and the transitions in ascending order, each the Unix second from which
  an offset is in force. \<open>lookup\<close> is the library's \<open>Location.lookup\<close>: for a
  Unix second it gives the offset in force and the half-open range of seconds
  \<open>[start, end)\<close> of the period that holds it; \<open>alpha\<close> and \<open>omega\<close> are the
  library's marks for the beginning and the end of time.
\<close>

record Location =
  firstOffset :: int
  transitions :: "(int \<times> int) list"

definition alpha :: int where
  "alpha = - 9223372036854775808"

definition omega :: int where
  "omega = 9223372036854775807"

fun lookupFrom :: "int \<Rightarrow> int \<Rightarrow> (int \<times> int) list \<Rightarrow> int \<Rightarrow> int \<times> int \<times> int" where
  "lookupFrom offset start [] sec = (offset, start, omega)"
| "lookupFrom offset start ((when, offset') # rest) sec =
     (if sec < when then (offset, start, when) else lookupFrom offset' when rest sec)"

definition lookup :: "Location \<Rightarrow> int \<Rightarrow> int \<times> int \<times> int" where
  "lookup loc sec = lookupFrom (firstOffset loc) alpha (transitions loc) sec"

definition offsetAt :: "Location \<Rightarrow> int \<Rightarrow> int" where
  "offsetAt loc sec = fst (lookup loc sec)"

text \<open>\<open>time.FixedZone(name, offset)\<close>: one offset for all time.\<close>

definition FixedZone :: "int \<Rightarrow> Location" where
  "FixedZone offset = \<lparr>firstOffset = offset, transitions = []\<rparr>"

text \<open>
  What \<open>time.LoadLocation("Europe/Moscow")\<close> gives when the zone database is at
  hand: local mean time (2:30:17 east) at first, then the 78 transitions of the
  database. The last two are 27 March 2011 (to four hours east) and 26 October 2014
  (back to three hours east).
\<close>

definition Europe_Moscow :: Location where
  "Europe_Moscow =
     \<lparr>firstOffset = 9017,
      transitions = [
      (- 2840149817, 9017), (- 1688265017, 9079), (- 1656819079, 12679),
      (- 1641353479, 9079), (- 1627965079, 16279), (- 1618716679, 12679),
      (- 1596429079, 16279), (- 1593820800, 14400), (- 1589860800, 10800),
      (- 1542427200, 14400), (- 1539493200, 18000), (- 1525323600, 14400),
      (- 1522728000, 10800), (- 1491188400, 7200), (- 1247536800, 10800),
      (354920400, 14400), (370728000, 10800), (386456400, 14400), (402264000, 10800),
      (417992400, 14400), (433800000, 10800), (449614800, 14400), (465346800, 10800),
      (481071600, 14400), (496796400, 10800), (512521200, 14400), (528246000, 10800),
      (543970800, 14400), (559695600, 10800), (575420400, 14400), (591145200, 10800),
      (606870000, 14400), (622594800, 10800), (638319600, 14400), (654649200, 10800),
      (670374000, 10800), (686102400, 7200), (695779200, 10800), (701823600, 14400),
      (717548400, 10800), (733273200, 14400), (748998000, 10800), (764722800, 14400),
      (780447600, 10800), (796172400, 14400), (811897200, 10800), (828226800, 14400),
      (846370800, 10800), (859676400, 14400), (877820400, 10800), (891126000, 14400),
      (909270000, 10800), (922575600, 14400), (941324400, 10800), (954025200, 14400),
      (972774000, 10800), (985474800, 14400), (1004223600, 10800), (1017529200, 14400),
      (1035673200, 10800), (1048978800, 14400), (1067122800, 10800), (1080428400, 14400),
      (1099177200, 10800), (1111878000, 14400), (1130626800, 10800), (1143327600, 14400),
      (1162076400, 10800), (1174777200, 14400), (1193526000, 10800), (1206831600, 14400),
      (1224975600, 10800), (1238281200, 14400), (1256425200, 10800), (1269730800, 14400),
      (1288479600, 10800), (1301180400, 14400), (1414274400, 10800)]\<rparr>"

text \<open>
  The location \<open>scheduleDaily\<close> works in. \<open>loaded\<close> is what
  \<open>time.LoadLocation\<close> returned: a location, or nil when the zone could not be
  loaded.
  \<^verbatim>\<open>
  loc, _ := time.LoadLocation("Europe/Moscow")
  if loc == nil {
      loc = time.FixedZone("MSK", 3*60*60)
  }
  \<close>
\<close>

definition scheduleLocation :: "Location option \<Rightarrow> Location" where
  "scheduleLocation loaded =
     (case loaded of None \<Rightarrow> FixedZone (3 * 60 * 60) | Some loc \<Rightarrow> loc)"

subsection \<open>Civil time\<close>

text \<open>
  \<open>unixSec\<close> is the Unix second of an instant. \<open>now.Year(), now.Month(),
  now.Day()\<close> name the civil day of \<open>now\<close> in the location: the day that holds the
  Unix second of \<open>now\<close> moved by the offset in force at it. The model names that day
  by its number, the count of whole days since 1 January 1970.
\<close>

definition unixSec :: "instant \<Rightarrow> int" where
  "unixSec t = t div Second"

definition localDay :: "Location \<Rightarrow> instant \<Rightarrow> int" where
  "localDay loc t = (unixSec t + offsetAt loc (unixSec t)) div 86400"

text \<open>
  \<open>time.Date(y, m, d, hour, minute, 0, 0, loc)\<close> for the civil day \<open>day\<close>, as the
  library computes it (Go 1.20, the release the repository's Dockerfile builds with).
  An hour or minute out of range is carried over, which is the same sum.
  \<^verbatim>\<open>
  unix := <seconds of day, hour, min as if in UTC>
  _, offset, start, end, _ := l.lookup(unix)
  if offset != 0 {
      utc := unix - int64(offset)
      if utc < start || utc >= end {
          _, offset, _, _, _ = l.lookup(utc)
      }
      unix -= int64(offset)
  }
  \<close>
\<close>

definition Date :: "Location \<Rightarrow> int \<Rightarrow> int \<Rightarrow> int \<Rightarrow> instant" where
  "Date loc day hour minute =
     (let unix = day * 86400 + hour * 3600 + minute * 60;
          (offset, start, end) = lookup loc unix
      in if offset \<noteq> 0 then
           (let utc = unix - offset;
                offset' = (if utc < start \<or> utc \<ge> end then offsetAt loc utc else offset)
            in (unix - offset') * Second)
         else unix * Second)"

text \<open>The wall clock of an instant in the location: \<open>t.Hour()\<close>, \<open>t.Minute()\<close>,
  \<open>t.Second()\<close> and \<open>t.Nanosecond()\<close>.\<close>

definition localSec :: "Location \<Rightarrow> instant \<Rightarrow> int" where
  "localSec loc t = unixSec t + offsetAt loc (unixSec t)"

definition clockHour :: "Location \<Rightarrow> instant \<Rightarrow> int" where
  "clockHour loc t = (localSec loc t mod 86400) div 3600"

definition clockMinute :: "Location \<Rightarrow> instant \<Rightarrow> int" where
  "clockMinute loc t = (localSec loc t mod 3600) div 60"

definition clockSecond :: "Location \<Rightarrow> instant \<Rightarrow> int" where
  "clockSecond loc t = localSec loc t mod 60"

definition clockNanosecond :: "Location \<Rightarrow> instant \<Rightarrow> int" where
  "clockNanosecond loc t = t mod Second"

subsection \<open>One pass of the loop\<close>

text \<open>
  From the clock reading \<open>now\<close>:
  \<^verbatim>\<open>
  nextRun := time.Date(now.Year(), now.Month(), now.Day(), hour, minute, 0, 0, loc)
  if now.After(nextRun) {
      nextRun = nextRun.Add(24 * time.Hour)
  }
  waitDuration := nextRun.Sub(now)
  \<close>
\<close>

definition todayRun :: "Location \<Rightarrow> int \<Rightarrow> int \<Rightarrow> instant \<Rightarrow> instant" where
  "todayRun loc hour minute now = Date loc (localDay loc now) hour minute"

definition After :: "instant \<Rightarrow> instant \<Rightarrow> bool" where
  "After t u = (t > u)"

definition nextRun :: "Location \<Rightarrow> int \<Rightarrow> int \<Rightarrow> instant \<Rightarrow> instant" where
  "nextRun loc hour minute now =
     (let nr = todayRun loc hour minute now
      in if After now nr then nr + 24 * Hour else nr)"

definition waitDuration :: "Location \<Rightarrow> int \<Rightarrow> int \<Rightarrow> instant \<Rightarrow> duration" where
  "waitDuration loc hour minute now = nextRun loc hour minute now - now"

subsection \<open>The loop\<close>

text \<open>
  The loop itself never ends and has two clock readings per pass: \<open>now\<close> at its head
  and the \<open>time.Now()\<close> that is sent on the channel once the timer has fired. A finite
  run of the loop is its passes over a list of such pairs of readings; each pass gives
  one emission.
\<close>

record emission =
  target :: instant
  waited :: duration
  sentAt :: instant

fun scheduleDaily :: "Location \<Rightarrow> int \<Rightarrow> int \<Rightarrow> (instant \<times> instant) list \<Rightarrow> emission list" where
  "scheduleDaily loc hour minute [] = []"
| "scheduleDaily loc hour minute ((now, fired) # rs) =
     \<lparr>target = nextRun loc hour minute now,
      waited = waitDuration loc hour minute now,
      sentAt = fired\<rparr> # scheduleDaily loc hour minute rs"

text \<open>
  What the timer and the clock give: the timer fires no earlier than the wait it was
  set to, and the reading at the head of the next pass is no earlier than the reading
  sent on the channel.
\<close>

fun clockAdvances :: "Location \<Rightarrow> int \<Rightarrow> int \<Rightarrow> (instant \<times> instant) list \<Rightarrow> bool" where
  "clockAdvances loc hour minute [] = True"
| "clockAdvances loc hour minute [(now, fired)] = (nextRun loc hour minute now \<le> fired)"
| "clockAdvances loc hour minute ((now, fired) # (now', fired') # rs) =
     (nextRun loc hour minute now \<le> fired \<and> fired \<le> now' \<and>
      clockAdvances loc hour minute ((now', fired') # rs))"

text \<open>
  Normal operation: the pass after an emission reads the clock strictly after the
  target that has just fired and before that target's next day.
\<close>

fun resumesWithinDay :: "Location \<Rightarrow> int \<Rightarrow> int \<Rightarrow> (instant \<times> instant) list \<Rightarrow> bool" where
  "resumesWithinDay loc hour minute [] = True"
| "resumesWithinDay loc hour minute [r] = True"
| "resumesWithinDay loc hour minute ((now, fired) # (now', fired') # rs) =
     (nextRun loc hour minute now < now' \<and> now' < nextRun loc hour minute now + 24 * Hour \<and>
      resumesWithinDay loc hour minute ((now', fired') # rs))"

text \<open>
  A location is steady around an instant when its offset, at most a day in size, is the
  same from two days before the instant to two days after it: no change of offset is
  near. A fixed zone is steady around every instant.
\<close>

definition steady :: "Location \<Rightarrow> instant \<Rightarrow> bool" where
  "steady loc now =
     (\<bar>offsetAt loc (unixSec now)\<bar> \<le> 86400 \<and>
      (\<forall>t. unixSec now - 172800 \<le> t \<and> t \<le> unixSec now + 172800 \<longrightarrow>
           offsetAt loc t = offsetAt loc (unixSec now)))"

fun steadyRun :: "Location \<Rightarrow> (instant \<times> instant) list \<Rightarrow> bool" where
  "steadyRun loc [] = True"
| "steadyRun loc ((now, fired) # rs) = (steady loc now \<and> steadyRun loc rs)"

section \<open>The dispatcher: chat commands and the daily broadcast\<close>

text \<open>
  The repository holds two bot entry points. One selects the command with the chat
  library's \<open>message.Command()\<close> and demands the credential of the completion
  service at start; its definitions carry the suffix \<open>_cmd\<close>. The other compares
  \<open>message.Text\<close> with the command words and builds its service with
  \<open>NewAIService()\<close> of \<open>ai_service.go\<close>; its definitions carry the suffix
  \<open>_txt\<close>. \<open>scheduleDaily\<close> and \<open>sendDailyAnalytics\<close> are the same text in
  both.
\<close>

type_synonym int64 = "64 word"

definition ADMIN_USER_ID :: int64 where
  "ADMIN_USER_ID = 449066543"

text \<open>
  The bodies of outgoing messages. The fixed ones are string literals of the source
  (in Russian); each literal is one constructor here, named after its use:
  \<^item> \<open>WelcomeText\<close>: \<open>welcomeText\<close> of the \<open>start\<close> command, and
    \<open>WelcomeAdminText\<close> the same with the administrator's line appended;
  \<^item> \<open>AdminOnlyText\<close>: the refusal sent to a caller who is not the administrator;
  \<^item> \<open>SubscribedText\<close>, \<open>UnsubscribedText\<close>: the two confirmations;
  \<^item> \<open>GeneratingText\<close>: the placeholder sent before the analytics are generated;
  \<^item> \<open>GenerationFailedText\<close>: the apology sent when generation fails;
  \<^item> \<open>UnknownCommandText\<close>: the answer of the \<open>_txt\<close> entry point to any other
    text;
  \<^item> \<open>Content s\<close>: any other string \<open>s\<close>; the analytics returned by
    \<open>GenerateAnalytics\<close> are sent as such.
\<close>

datatype msgtext =
    WelcomeText
  | WelcomeAdminText
  | AdminOnlyText
  | SubscribedText
  | UnsubscribedText
  | GeneratingText
  | GenerationFailedText
  | UnknownCommandText
  | Content string

text \<open>
  A Go \<open>error\<close>. \<open>Failure s\<close> is an error handed back by a library or by a
  collaborator, with its message; the others are the errors \<open>GenerateAnalytics\<close>
  builds with \<open>fmt.Errorf\<close>, one constructor for each format string.
\<close>

datatype error =
    Failure string
  | MarshalError error
  | NewRequestError error
  | DoError error
  | ReadError error
  | UnmarshalError error
  | APIError string
  | EmptyResponse

text \<open>
  What the handlers read of an incoming \<open>tgbotapi.Message\<close>: \<open>message.Chat.ID\<close>,
  \<open>message.From.ID\<close>, \<open>message.Text\<close>, and the value of the library method
  \<open>message.Command()\<close>, which the library computes from the message's entities.
  The sender is present in every message that reaches the handler: the main loop reads
  \<open>update.Message.From.UserName\<close> before it calls the handler.
\<close>

record Message =
  ChatID :: int64
  FromID :: int64
  Text :: string
  Command :: string

text \<open>
  What is handed to \<open>bot.Send\<close>: a \<open>MessageConfig\<close> built by
  \<open>tgbotapi.NewMessage\<close> or an \<open>EditMessageTextConfig\<close> built by
  \<open>tgbotapi.NewEditMessageText\<close>. The last field is \<open>ParseMode\<close>.
\<close>

datatype Chattable =
    MessageConfig int64 msgtext string
  | EditMessageTextConfig int64 int msgtext string

definition NewMessage :: "int64 \<Rightarrow> msgtext \<Rightarrow> Chattable" where
  "NewMessage chatID t = MessageConfig chatID t []"

definition NewEditMessageText :: "int64 \<Rightarrow> int \<Rightarrow> msgtext \<Rightarrow> Chattable" where
  "NewEditMessageText chatID messageID t = EditMessageTextConfig chatID messageID t []"

fun setParseMode :: "string \<Rightarrow> Chattable \<Rightarrow> Chattable" where
  "setParseMode pm (MessageConfig c t _) = MessageConfig c t pm"
| "setParseMode pm (EditMessageTextConfig c i t _) = EditMessageTextConfig c i t pm"

text \<open>
  The collaborators. \<open>generateResult k\<close> is what the \<open>k\<close>-th call of
  \<open>aiService.GenerateAnalytics()\<close> returns; \<open>sendResult k c\<close> is what the
  \<open>k\<close>-th call of \<open>bot.Send\<close> returns when handed \<open>c\<close>: the
  \<open>MessageID\<close> of the returned message (0 in the empty message that comes with an
  error) and the error, if any.
\<close>

record collaborators =
  generateResult :: "nat \<Rightarrow> error + msgtext"
  sendResult :: "nat \<Rightarrow> Chattable \<Rightarrow> int \<times> error option"

datatype logline =
    LogGenerateError error
  | LogDailyCount nat
  | LogDailyGenerateError error
  | LogDailySendError int64 error

text \<open>
  The effects of the dispatcher, in order: everything handed to \<open>bot.Send\<close>, the
  number of calls of \<open>GenerateAnalytics\<close> made so far, and the log lines.
\<close>

record world =
  sent :: "Chattable list"
  generated :: nat
  logged :: "logline list"

definition bot_Send :: "collaborators \<Rightarrow> Chattable \<Rightarrow> world \<Rightarrow> (int \<times> error option) \<times> world" where
  "bot_Send env c w = (sendResult env (length (sent w)) c, w\<lparr>sent := sent w @ [c]\<rparr>)"

definition aiService_GenerateAnalytics :: "collaborators \<Rightarrow> world \<Rightarrow> (error + msgtext) \<times> world" where
  "aiService_GenerateAnalytics env w =
     (generateResult env (generated w), w\<lparr>generated := Suc (generated w)\<rparr>)"

definition log_Printf :: "logline \<Rightarrow> world \<Rightarrow> world" where
  "log_Printf l w = w\<lparr>logged := logged w @ [l]\<rparr>"

text \<open>
  The \<open>analytics\<close> command, the same in both entry points: a placeholder, one call of
  the completion collaborator, then either a new message with the apology or an edit of
  the placeholder to the analytics.
\<close>

definition analyticsCommand :: "collaborators \<Rightarrow> int64 \<Rightarrow> world \<Rightarrow> world" where
  "analyticsCommand env chatID w =
     (let (sentMsg, w1) = bot_Send env (NewMessage chatID GeneratingText) w;
          (res, w2) = aiService_GenerateAnalytics env w1
      in case res of
           Inl err \<Rightarrow>
             snd (bot_Send env (NewMessage chatID GenerationFailedText)
                    (log_Printf (LogGenerateError err) w2))
         | Inr analytics \<Rightarrow>
             snd (bot_Send env
                    (setParseMode ''Markdown'' (NewEditMessageText chatID (fst sentMsg) analytics))
                    w2))"

text \<open>
  \<open>handleMessage\<close> of the \<open>_cmd\<close> entry point. The map of subscribed chats is
  changed in place by the source; the model returns it.
\<close>

definition handleMessage_cmd ::
  "collaborators \<Rightarrow> Message \<Rightarrow> (int64 \<rightharpoonup> bool) \<Rightarrow> world \<Rightarrow> (int64 \<rightharpoonup> bool) \<times> world" where
  "handleMessage_cmd env message subscribedChats w =
     (let chatID = ChatID message;
          userID = FromID message;
          isAdmin = (userID = ADMIN_USER_ID)
      in if length (Text message) = 0 \<or> hd (Text message) \<noteq> CHR ''/'' then (subscribedChats, w)
         else if Command message = ''start'' then
           (subscribedChats,
            snd (bot_Send env
                   (NewMessage chatID (if isAdmin then WelcomeAdminText else WelcomeText)) w))
         else if Command message = ''subscribe'' \<or> Command message = ''unsubscribe''
                   \<or> Command message = ''analytics'' then
           (if \<not> isAdmin then
              (subscribedChats, snd (bot_Send env (NewMessage chatID AdminOnlyText) w))
            else if Command message = ''subscribe'' then
              (subscribedChats(chatID \<mapsto> True),
               snd (bot_Send env (NewMessage chatID SubscribedText) w))
            else if Command message = ''unsubscribe'' then
              (subscribedChats(chatID := None),
               snd (bot_Send env (NewMessage chatID UnsubscribedText) w))
            else (subscribedChats, analyticsCommand env chatID w))
         else (subscribedChats, w))"

text \<open>\<open>handleMessage\<close> of the \<open>_txt\<close> entry point.\<close>

definition handleMessage_txt ::
  "collaborators \<Rightarrow> Message \<Rightarrow> (int64 \<rightharpoonup> bool) \<Rightarrow> world \<Rightarrow> (int64 \<rightharpoonup> bool) \<times> world" where
  "handleMessage_txt env message subscribedChats w =
     (let chatID = ChatID message;
          userID = FromID message;
          isAdmin = (userID = ADMIN_USER_ID)
      in if Text message = ''/start'' then
           (subscribedChats,
            snd (bot_Send env
                   (NewMessage chatID (if isAdmin then WelcomeAdminText else WelcomeText)) w))
         else if \<not> isAdmin then
           (subscribedChats, snd (bot_Send env (NewMessage chatID AdminOnlyText) w))
         else if Text message = ''/subscribe'' then
           (subscribedChats(chatID \<mapsto> True),
            snd (bot_Send env (NewMessage chatID SubscribedText) w))
         else if Text message = ''/unsubscribe'' then
           (subscribedChats(chatID := None),
            snd (bot_Send env (NewMessage chatID UnsubscribedText) w))
         else if Text message = ''/analytics'' then
           (subscribedChats, analyticsCommand env chatID w)
         else (subscribedChats, snd (bot_Send env (NewMessage chatID UnknownCommandText) w)))"

text \<open>
  \<open>for chatID := range subscribedChats\<close> visits every key of the map once, in an
  order the Go runtime picks. \<open>rangeOrder m ks\<close> says that \<open>ks\<close> is such an order.
\<close>

definition rangeOrder :: "(int64 \<rightharpoonup> bool) \<Rightarrow> int64 list \<Rightarrow> bool" where
  "rangeOrder m ks = (distinct ks \<and> set ks = dom m)"

fun sendToAll :: "collaborators \<Rightarrow> msgtext \<Rightarrow> int64 list \<Rightarrow> world \<Rightarrow> world" where
  "sendToAll env analytics [] w = w"
| "sendToAll env analytics (chatID # rest) w =
     (let (res, w1) = bot_Send env (setParseMode ''Markdown'' (NewMessage chatID analytics)) w
      in sendToAll env analytics rest
           (case snd res of
              Some err \<Rightarrow> log_Printf (LogDailySendError chatID err) w1
            | None \<Rightarrow> w1))"

text \<open>
  \<open>sendDailyAnalytics\<close>, with the order \<open>ks\<close> in which the \<open>range\<close> visits the keys.
  The function only reads the map; \<open>len(subscribedChats)\<close> is the number of keys.
\<close>

definition sendDailyAnalytics :: "collaborators \<Rightarrow> int64 list \<Rightarrow> world \<Rightarrow> world" where
  "sendDailyAnalytics env ks w =
     (let (res, w1) = aiService_GenerateAnalytics env (log_Printf (LogDailyCount (length ks)) w)
      in case res of
           Inl err \<Rightarrow> log_Printf (LogDailyGenerateError err) w1
         | Inr analytics \<Rightarrow> sendToAll env analytics ks w1)"

text \<open>
  One turn of the \<open>select\<close> of the main loop: an update from the chat platform, with
  or without a message, or a signal of the daily ticker (with the order its \<open>range\<close>
  will take). The loop handles one event at a time, so a run of it is a fold of this
  function over the events. The line the loop logs for each incoming message is not
  among the log lines of the model.
\<close>

datatype event = Update "Message option" | DailyTicker "int64 list"

fun select_cmd ::
  "collaborators \<Rightarrow> event \<Rightarrow> (int64 \<rightharpoonup> bool) \<times> world \<Rightarrow> (int64 \<rightharpoonup> bool) \<times> world" where
  "select_cmd env (Update None) (subscribedChats, w) = (subscribedChats, w)"
| "select_cmd env (Update (Some message)) (subscribedChats, w) =
     handleMessage_cmd env message subscribedChats w"
| "select_cmd env (DailyTicker ks) (subscribedChats, w) =
     (subscribedChats, sendDailyAnalytics env ks w)"

fun select_txt ::
  "collaborators \<Rightarrow> event \<Rightarrow> (int64 \<rightharpoonup> bool) \<times> world \<Rightarrow> (int64 \<rightharpoonup> bool) \<times> world" where
  "select_txt env (Update None) (subscribedChats, w) = (subscribedChats, w)"
| "select_txt env (Update (Some message)) (subscribedChats, w) =
     handleMessage_txt env message subscribedChats w"
| "select_txt env (DailyTicker ks) (subscribedChats, w) =
     (subscribedChats, sendDailyAnalytics env ks w)"

section \<open>The market data service (\<open>GetMarketData\<close>)\<close>

text \<open>
  A \<open>float64\<close>, as far as the program compares it: a finite value, an infinity, or
  not a number (\<open>strconv.ParseFloat\<close> accepts the strings \<open>NaN\<close> and \<open>Inf\<close>).
  A finite value is given by the real number it denotes; a decimal literal of the source
  stands for the \<open>float64\<close> nearest to it. \<open>float_gt\<close> is Go's \<open>>\<close> on
  \<open>float64\<close>: false whenever an operand is not a number.
\<close>

datatype float64 = NaN | NegInf | Finite real | PosInf

fun float_gt :: "float64 \<Rightarrow> float64 \<Rightarrow> bool" where
  "float_gt NaN _ = False"
| "float_gt _ NaN = False"
| "float_gt NegInf _ = False"
| "float_gt _ PosInf = False"
| "float_gt PosInf _ = True"
| "float_gt (Finite x) NegInf = True"
| "float_gt (Finite x) (Finite y) = (x > y)"

record StockInfo =
  Ticker :: string
  Name :: string
  Price :: float64
  Change :: float64
  Currency :: string
  SourceURL :: string

record NewsItem =
  Title :: string
  Source :: string
  URL :: string
  Timestamp :: instant

record MarketData =
  IndexMOEX :: float64
  IndexRTS :: float64
  USDRate :: float64
  EURRate :: float64
  TopStocks :: "StockInfo list"
  RecommendedStock :: StockInfo
  MarketTrend :: string
  MarketNews :: "NewsItem list"

text \<open>The zero values of Go, for the fields a composite literal leaves out.\<close>

definition zeroStockInfo :: StockInfo where
  "zeroStockInfo =
     \<lparr>Ticker = [], Name = [], Price = Finite 0, Change = Finite 0, Currency = [],
      SourceURL = []\<rparr>"

text \<open>
  The stub values of \<open>GetMarketData\<close>. The three company names are the UTF-8 bytes of
  the source's literals.
\<close>

definition stubMarketData :: MarketData where
  "stubMarketData =
     \<lparr>IndexMOEX = Finite 4100, IndexRTS = Finite 1100, USDRate = Finite 90.5,
      EURRate = Finite 98.7, TopStocks = [], RecommendedStock = zeroStockInfo,
      MarketTrend = ''stable'', MarketNews = []\<rparr>"

definition nameGazprom :: string where
  "nameGazprom =
     [CHR 0xD0, CHR 0x93, CHR 0xD0, CHR 0xB0, CHR 0xD0, CHR 0xB7, CHR 0xD0, CHR 0xBF,
      CHR 0xD1, CHR 0x80, CHR 0xD0, CHR 0xBE, CHR 0xD0, CHR 0xBC]"

definition nameSberbank :: string where
  "nameSberbank =
     [CHR 0xD0, CHR 0xA1, CHR 0xD0, CHR 0xB1, CHR 0xD0, CHR 0xB5, CHR 0xD1, CHR 0x80,
      CHR 0xD0, CHR 0xB1, CHR 0xD0, CHR 0xB0, CHR 0xD0, CHR 0xBD, CHR 0xD0, CHR 0xBA]"

definition nameLukoil :: string where
  "nameLukoil =
     [CHR 0xD0, CHR 0x9B, CHR 0xD1, CHR 0x83, CHR 0xD0, CHR 0xBA, CHR 0xD0, CHR 0xBE,
      CHR 0xD0, CHR 0xB9, CHR 0xD0, CHR 0xBB]"

definition stubGAZP :: StockInfo where
  "stubGAZP =
     \<lparr>Ticker = ''GAZP'', Name = nameGazprom, Price = Finite 164.82, Change = Finite 0.63,
      Currency = ''RUB'', SourceURL = []\<rparr>"

definition stubStocks :: "StockInfo list" where
  "stubStocks =
     [stubGAZP,
      \<lparr>Ticker = ''SBER'', Name = nameSberbank, Price = Finite 287.45, Change = Finite 1.12,
       Currency = ''RUB'', SourceURL = []\<rparr>,
      \<lparr>Ticker = ''LKOH'', Name = nameLukoil, Price = Finite 7046.5,
       Change = Finite (- 0.35), Currency = ''RUB'', SourceURL = []\<rparr>]"

text \<open>The zero value of \<open>MarketData\<close> but for the trend, as \<open>getMOEXData\<close> begins
  with it: \<open>&MarketData{MarketTrend: "stable"}\<close>.\<close>

definition newMarketData :: MarketData where
  "newMarketData =
     \<lparr>IndexMOEX = Finite 0, IndexRTS = Finite 0, USDRate = Finite 0, EURRate = Finite 0,
      TopStocks = [], RecommendedStock = zeroStockInfo, MarketTrend = ''stable'',
      MarketNews = []\<rparr>"

subsection \<open>Answers of the exchange\<close>

text \<open>
  A call either returns or panics; a panic is not recovered anywhere in the program.
\<close>

datatype 'a outcome = Panics | Returns 'a

text \<open>
  A JSON value as \<open>json.Unmarshal\<close> stores it in an \<open>interface{}\<close>: a number
  is a \<open>float64\<close>, an array a slice, an object a map (given here by its members in
  the order of the document; of two members with one name the later counts).
\<close>

datatype json =
    JNull
  | JBool bool
  | JNumber float64
  | JString string
  | JArray "json list"
  | JObject "(string \<times> json) list"

definition member :: "(string \<times> json) list \<Rightarrow> string \<Rightarrow> json option" where
  "member m k = map_of (rev m) k"

text \<open>
  What \<open>s.client.Get\<close>, \<open>io.ReadAll\<close> of the body and \<open>json.Unmarshal\<close> give
  in turn: the first error met, or the decoded value.
\<close>

datatype 'a answer = GetFails error | ReadFails error | UnmarshalFails error | Decodes 'a

text \<open>
  The part of \<open>MoexAPIResponse\<close> that is read: the columns and the rows of
  \<open>cbrf\<close>.
\<close>

record MoexAPIResponse =
  CbrfColumns :: "string list"
  CbrfData :: "json list list"

text \<open>The errors \<open>getMOEXData\<close> builds with \<open>fmt.Errorf\<close>; \<open>BadFormat\<close> names
  the member that has not the expected form.\<close>

datatype fetchError =
    RequestFailed error
  | ReadFailed error
  | ParseFailed error
  | BadFormat string

subsection \<open>\<open>getMOEXData\<close>\<close>

text \<open>
  \<open>parseFloat\<close> is \<open>strconv.ParseFloat(s, 64)\<close>.
  \<^verbatim>\<open>
  lastPrice, ok := mdArray[2].(float64)
  if !ok {
      lastPriceStr, ok := mdArray[2].(string)
      if !ok { continue }
      lastPrice, err = strconv.ParseFloat(lastPriceStr, 64)
      if err != nil { continue }
  }
  \<close>
\<close>

fun lastPriceOf :: "(string \<Rightarrow> error + float64) \<Rightarrow> json \<Rightarrow> float64 option" where
  "lastPriceOf parseFloat (JNumber x) = Some x"
| "lastPriceOf parseFloat (JString s) =
     (case parseFloat s of Inl err \<Rightarrow> None | Inr x \<Rightarrow> Some x)"
| "lastPriceOf parseFloat _ = None"

text \<open>One turn of the loop over \<open>secData\<close>, at index \<open>i\<close>; every \<open>continue\<close>
  leaves the data as they are.\<close>

definition indexRow ::
  "(string \<Rightarrow> error + float64) \<Rightarrow> json list \<Rightarrow> nat \<Rightarrow> json \<Rightarrow> MarketData \<Rightarrow> MarketData" where
  "indexRow parseFloat mdData i sec marketData =
     (case sec of
        JArray secArray \<Rightarrow>
          if length secArray < 2 then marketData
          else
            (case secArray ! 0 of
               JString ticker \<Rightarrow>
                 if i < length mdData then
                   (case mdData ! i of
                      JArray mdArray \<Rightarrow>
                        if length mdArray < 3 then marketData
                        else
                          (case lastPriceOf parseFloat (mdArray ! 2) of
                             None \<Rightarrow> marketData
                           | Some lastPrice \<Rightarrow>
                               if ticker = ''IMOEX'' then marketData\<lparr>IndexMOEX := lastPrice\<rparr>
                               else if ticker = ''RTSI'' then marketData\<lparr>IndexRTS := lastPrice\<rparr>
                               else marketData)
                    | _ \<Rightarrow> marketData)
                 else marketData
             | _ \<Rightarrow> marketData)
      | _ \<Rightarrow> marketData)"

fun indexRows ::
  "(string \<Rightarrow> error + float64) \<Rightarrow> json list \<Rightarrow> nat \<Rightarrow> json list \<Rightarrow> MarketData \<Rightarrow> MarketData" where
  "indexRows parseFloat mdData i [] marketData = marketData"
| "indexRows parseFloat mdData i (sec # rest) marketData =
     indexRows parseFloat mdData (Suc i) rest (indexRow parseFloat mdData i sec marketData)"

text \<open>
  The rates, from a decoded answer of the currency request. \<open>idx\<close> maps a column name
  to its (last) position; a name that is no column reads as 0. Indexing a slice out of
  its range panics. A cell that is no number reads as 0.
  \<^verbatim>\<open>
  idx := make(map[string]int, len(currResp.Cbrf.Columns))
  for i, col := range currResp.Cbrf.Columns { idx[col] = i }
  row := currResp.Cbrf.Data[0]
  marketData.USDRate, _ = row[idx["CBRF_USD_LAST"]].(float64)
  marketData.EURRate, _ = row[idx["CBRF_EUR_LAST"]].(float64)
  \<close>
\<close>

definition columnIndex :: "string list \<Rightarrow> string \<Rightarrow> nat" where
  "columnIndex columns name =
     (case map_of (rev (zip columns [0..<length columns])) name of
        None \<Rightarrow> 0
      | Some i \<Rightarrow> i)"

fun asFloat64 :: "json \<Rightarrow> float64" where
  "asFloat64 (JNumber x) = x"
| "asFloat64 _ = Finite 0"

definition currencyRates :: "MoexAPIResponse \<Rightarrow> MarketData \<Rightarrow> MarketData outcome" where
  "currencyRates currResp marketData =
     (case CbrfData currResp of
        [] \<Rightarrow> Panics
      | row # _ \<Rightarrow>
          (let usd = columnIndex (CbrfColumns currResp) ''CBRF_USD_LAST'';
               eur = columnIndex (CbrfColumns currResp) ''CBRF_EUR_LAST''
           in if usd \<ge> length row then Panics
              else if eur \<ge> length row then Panics
              else Returns (marketData\<lparr>USDRate := asFloat64 (row ! usd),
                                       EURRate := asFloat64 (row ! eur)\<rparr>)))"

text \<open>
  \<^verbatim>\<open>
  marketData.MarketTrend = "stable"
  if marketData.IndexMOEX > 4200 {
      marketData.MarketTrend = "up"
  } else if marketData.IndexMOEX < 3800 {
      marketData.MarketTrend = "down"
  }
  \<close>
\<close>

definition withTrend :: "MarketData \<Rightarrow> MarketData" where
  "withTrend marketData =
     (if float_gt (IndexMOEX marketData) (Finite 4200) then marketData\<lparr>MarketTrend := ''up''\<rparr>
      else if float_gt (Finite 3800) (IndexMOEX marketData) then
        marketData\<lparr>MarketTrend := ''down''\<rparr>
      else marketData\<lparr>MarketTrend := ''stable''\<rparr>)"

text \<open>
  \<open>getMOEXData\<close>, from the answers to its two requests: the index request, decoded
  into a map, and the currency request, decoded into a \<open>MoexAPIResponse\<close>. A failed
  currency request, body or decoding leaves the rates as they are.
\<close>

definition getMOEXData ::
  "(string \<Rightarrow> error + float64) \<Rightarrow> (string \<times> json) list answer \<Rightarrow> MoexAPIResponse answer \<Rightarrow>
   (fetchError + MarketData) outcome" where
  "getMOEXData parseFloat indexAnswer currencyAnswer =
     (case indexAnswer of
        GetFails err \<Rightarrow> Returns (Inl (RequestFailed err))
      | ReadFails err \<Rightarrow> Returns (Inl (ReadFailed err))
      | UnmarshalFails err \<Rightarrow> Returns (Inl (ParseFailed err))
      | Decodes moexResp \<Rightarrow>
          (case member moexResp ''securities'' of
             Some (JObject securities) \<Rightarrow>
               (case member securities ''data'' of
                  Some (JArray secData) \<Rightarrow>
                    (case member moexResp ''marketdata'' of
                       Some (JObject marketdata) \<Rightarrow>
                         (case member marketdata ''data'' of
                            Some (JArray mdData) \<Rightarrow>
                              (let marketData = indexRows parseFloat mdData 0 secData newMarketData
                               in case (case currencyAnswer of
                                          Decodes currResp \<Rightarrow> currencyRates currResp marketData
                                        | _ \<Rightarrow> Returns marketData) of
                                    Panics \<Rightarrow> Panics
                                  | Returns marketData' \<Rightarrow> Returns (Inr (withTrend marketData')))
                          | _ \<Rightarrow> Returns (Inl (BadFormat ''marketdata.data'')))
                     | _ \<Rightarrow> Returns (Inl (BadFormat ''marketdata'')))
                | _ \<Rightarrow> Returns (Inl (BadFormat ''data'')))
           | _ \<Rightarrow> Returns (Inl (BadFormat ''securities''))))"

subsection \<open>\<open>GetMarketData\<close>\<close>

text \<open>
  What \<open>GetMarketData\<close> meets: \<open>strconv.ParseFloat\<close>, the answers to the two
  requests of \<open>getMOEXData\<close>, and what \<open>getMarketNews\<close> and \<open>getTopStocks\<close> do.
  \<open>getMarketNews\<close> returns an error or the news. \<open>getTopStocks\<close> returns an
  error or the stocks, or it panics: it reads \<open>secArray[boardIdIdx]\<close> although
  \<open>boardIdIdx\<close> is still \<open>-1\<close> when the answer has no column \<open>BOARDID\<close>, which
  its test of the columns found does not look at.
\<close>

record upstream =
  strconv_ParseFloat :: "string \<Rightarrow> error + float64"
  indexAnswer :: "(string \<times> json) list answer"
  currencyAnswer :: "MoexAPIResponse answer"
  getMarketNews :: "error + NewsItem list"
  getTopStocks :: "(error + StockInfo list) outcome"

text \<open>
  \<^verbatim>\<open>
  bestStock := stocks[0]
  for _, stock := range stocks {
      if stock.Change > bestStock.Change { bestStock = stock }
  }
  \<close>
\<close>

fun bestOf :: "StockInfo \<Rightarrow> StockInfo list \<Rightarrow> StockInfo" where
  "bestOf bestStock [] = bestStock"
| "bestOf bestStock (stock # rest) =
     bestOf (if float_gt (Change stock) (Change bestStock) then stock else bestStock) rest"

text \<open>
  \<open>GetMarketData\<close> returns a pointer, nil or not, and an error, nil or not, unless one
  of its calls panics.
\<close>

definition GetMarketData :: "upstream \<Rightarrow> (MarketData option \<times> error option) outcome" where
  "GetMarketData s =
     (case getMOEXData (strconv_ParseFloat s) (indexAnswer s) (currencyAnswer s) of
        Panics \<Rightarrow> Panics
      | Returns moex \<Rightarrow>
          (let moexData = (case moex of Inl err \<Rightarrow> stubMarketData | Inr d \<Rightarrow> d);
               news = (case getMarketNews s of Inl err \<Rightarrow> [] | Inr n \<Rightarrow> n);
               moexData = moexData\<lparr>MarketNews := news\<rparr>
           in case getTopStocks s of
                Panics \<Rightarrow> Panics
              | Returns found \<Rightarrow>
                  (let stocks = (case found of Inl err \<Rightarrow> stubStocks | Inr st \<Rightarrow> st);
                       moexData = moexData\<lparr>TopStocks := stocks\<rparr>;
                       moexData =
                         (case stocks of
                            stock0 # _ \<Rightarrow> moexData\<lparr>RecommendedStock := bestOf stock0 stocks\<rparr>
                          | [] \<Rightarrow> moexData\<lparr>RecommendedStock := stubGAZP\<rparr>)
                   in Returns (Some moexData, None))))"

section \<open>The completion service of \<open>ai_service.go\<close>\<close>

record AIConfig =
  APIKey :: string
  APIBaseURL :: string
  ModelName :: string

text \<open>
  \<open>NewAIService()\<close> reads its configuration from the environment; \<open>getenv\<close> is
  \<open>os.Getenv\<close>. An empty credential only draws a warning in the log.
\<close>

definition NewAIService :: "(string \<Rightarrow> string) \<Rightarrow> AIConfig" where
  "NewAIService getenv =
     \<lparr>APIKey = getenv ''AI_API_KEY'',
      APIBaseURL =
        (if getenv ''AI_API_BASE_URL'' = [] then ''https://api.openai.com/v1/chat/completions''
         else getenv ''AI_API_BASE_URL''),
      ModelName =
        (if getenv ''AI_MODEL_NAME'' = [] then ''gpt-4o'' else getenv ''AI_MODEL_NAME'')\<rparr>"

text \<open>
  The canned report of \<open>getLocalAnalytics\<close>: the bytes (UTF-8) of the source's
  template before its \<open>%s\<close>, the date string, and the bytes after it, with the
  template's \<open>%%\<close> printed as one percent sign. \<open>dateStr\<close> is
  \<open>now.Format("02.01.2006")\<close> of the clock reading.
\<close>

definition cannedHead :: string where
  "cannedHead =
     [
      CHR 0xE2, CHR 0x9C, CHR 0xA8, CHR 0x20, CHR 0x2A, CHR 0xD0, CHR 0x95, CHR 0xD0, CHR 0xB6,
      CHR 0xD0, CHR 0xB5, CHR 0xD0, CHR 0xB4, CHR 0xD0, CHR 0xBD, CHR 0xD0, CHR 0xB5, CHR 0xD0,
      CHR 0xB2, CHR 0xD0, CHR 0xBD, CHR 0xD0, CHR 0xB0, CHR 0xD1, CHR 0x8F, CHR 0x20, CHR 0xD0,
      CHR 0xB0, CHR 0xD0, CHR 0xBD, CHR 0xD0, CHR 0xB0, CHR 0xD0, CHR 0xBB, CHR 0xD0, CHR 0xB8,
      CHR 0xD1, CHR 0x82, CHR 0xD0, CHR 0xB8, CHR 0xD0, CHR 0xBA, CHR 0xD0, CHR 0xB0, CHR 0x20,
      CHR 0xD1, CHR 0x80, CHR 0xD1, CHR 0x8B, CHR 0xD0, CHR 0xBD, CHR 0xD0, CHR 0xBA, CHR 0xD0,
      CHR 0xB0, CHR 0x2A, CHR 0x20, CHR 0xE2, CHR 0x9C, CHR 0xA8, CHR 0x0A, CHR 0xF0, CHR 0x9F,
      CHR 0x97, CHR 0x93, CHR 0x20, CHR 0x2A]"

definition cannedTail :: string where
  "cannedTail =
     [
      CHR 0x2A, CHR 0x0A, CHR 0x0A, CHR 0xD0, CHR 0x9F, CHR 0xD1, CHR 0x80, CHR 0xD0, CHR 0xB8,
      CHR 0xD0, CHR 0xB2, CHR 0xD0, CHR 0xB5, CHR 0xD1, CHR 0x82, CHR 0xD0, CHR 0xB8, CHR 0xD0,
      CHR 0xBA, CHR 0x2C, CHR 0x20, CHR 0xD0, CHR 0xB4, CHR 0xD0, CHR 0xBE, CHR 0xD1, CHR 0x80,
      CHR 0xD0, CHR 0xBE, CHR 0xD0, CHR 0xB3, CHR 0xD0, CHR 0xBE, CHR 0xD0, CHR 0xB9, CHR 0x20,
      CHR 0xD0, CHR 0xB8, CHR 0xD0, CHR 0xBD, CHR 0xD0, CHR 0xB2, CHR 0xD0, CHR 0xB5, CHR 0xD1,
      CHR 0x81, CHR 0xD1, CHR 0x82, CHR 0xD0, CHR 0xBE, CHR 0xD1, CHR 0x80, CHR 0x21, CHR 0x20,
      CHR 0xF0, CHR 0x9F, CHR 0x91, CHR 0x8B, CHR 0xF0, CHR 0x9F, CHR 0x92, CHR 0x95, CHR 0x0A,
      CHR 0x0A, CHR 0xD0, CHR 0xA1, CHR 0xD0, CHR 0xB5, CHR 0xD0, CHR 0xB3, CHR 0xD0, CHR 0xBE,
      CHR 0xD0, CHR 0xB4, CHR 0xD0, CHR 0xBD, CHR 0xD1, CHR 0x8F, CHR 0x20, CHR 0xD1, CHR 0x80,
      CHR 0xD0, CHR 0xBE, CHR 0xD1, CHR 0x81, CHR 0xD1, CHR 0x81, CHR 0xD0, CHR 0xB8, CHR 0xD0,
      CHR 0xB9, CHR 0xD1, CHR 0x81, CHR 0xD0, CHR 0xBA, CHR 0xD0, CHR 0xB8, CHR 0xD0, CHR 0xB9,
      CHR 0x20, CHR 0xD1, CHR 0x80, CHR 0xD1, CHR 0x8B, CHR 0xD0, CHR 0xBD, CHR 0xD0, CHR 0xBE,
      CHR 0xD0, CHR 0xBA, CHR 0x20, CHR 0xD0, CHR 0xB2, CHR 0xD1, CHR 0x8B, CHR 0xD0, CHR 0xB3,
      CHR 0xD0, CHR 0xBB, CHR 0xD1, CHR 0x8F, CHR 0xD0, CHR 0xB4, CHR 0xD0, CHR 0xB8, CHR 0xD1,
      CHR 0x82, CHR 0x20, CHR 0xD0, CHR 0xBE, CHR 0xD1, CHR 0x87, CHR 0xD0, CHR 0xB5, CHR 0xD0,
      CHR 0xBD, CHR 0xD1, CHR 0x8C, CHR 0x20, CHR 0xD0, CHR 0xB8, CHR 0xD0, CHR 0xBD, CHR 0xD1,
      CHR 0x82, CHR 0xD0, CHR 0xB5, CHR 0xD1, CHR 0x80, CHR 0xD0, CHR 0xB5, CHR 0xD1, CHR 0x81,
      CHR 0xD0, CHR 0xBD, CHR 0xD0, CHR 0xBE, CHR 0x21, CHR 0x20, CHR 0xF0, CHR 0x9F, CHR 0x93,
      CHR 0x8A, CHR 0x20, CHR 0xD0, CHR 0xAF, CHR 0x20, CHR 0xD0, CHR 0xBF, CHR 0xD1, CHR 0x80,
      CHR 0xD0, CHR 0xBE, CHR 0xD0, CHR 0xB0, CHR 0xD0, CHR 0xBD, CHR 0xD0, CHR 0xB0, CHR 0xD0,
      CHR 0xBB, CHR 0xD0, CHR 0xB8, CHR 0xD0, CHR 0xB7, CHR 0xD0, CHR 0xB8, CHR 0xD1, CHR 0x80,
      CHR 0xD0, CHR 0xBE, CHR 0xD0, CHR 0xB2, CHR 0xD0, CHR 0xB0, CHR 0xD0, CHR 0xBB, CHR 0xD0,
      CHR 0xB0, CHR 0x20, CHR 0xD0, CHR 0xB2, CHR 0xD1, CHR 0x81, CHR 0xD0, CHR 0xB5, CHR 0x20,
      CHR 0xD1, CHR 0x82, CHR 0xD1, CHR 0x80, CHR 0xD0, CHR 0xB5, CHR 0xD0, CHR 0xBD, CHR 0xD0,
      CHR 0xB4, CHR 0xD1, CHR 0x8B, CHR 0x20, CHR 0xD1, CHR 0x81, CHR 0xD0, CHR 0xBF, CHR 0xD0,
      CHR 0xB5, CHR 0xD1, CHR 0x86, CHR 0xD0, CHR 0xB8, CHR 0xD0, CHR 0xB0, CHR 0xD0, CHR 0xBB,
      CHR 0xD1, CHR 0x8C, CHR 0xD0, CHR 0xBD, CHR 0xD0, CHR 0xBE, CHR 0x20, CHR 0xD0, CHR 0xB4,
      CHR 0xD0, CHR 0xBB, CHR 0xD1, CHR 0x8F, CHR 0x20, CHR 0xD1, CHR 0x82, CHR 0xD0, CHR 0xB5,
      CHR 0xD0, CHR 0xB1, CHR 0xD1, CHR 0x8F, CHR 0x21, CHR 0x20, CHR 0xF0, CHR 0x9F, CHR 0x8C,
      CHR 0x9F, CHR 0x0A, CHR 0x0A, CHR 0xF0, CHR 0x9F, CHR 0x94, CHR 0x8D, CHR 0x20, CHR 0x2A,
      CHR 0xD0, CHR 0x9E, CHR 0xD0, CHR 0xB1, CHR 0xD1, CHR 0x89, CHR 0xD0, CHR 0xB0, CHR 0xD1,
      CHR 0x8F, CHR 0x20, CHR 0xD1, CHR 0x81, CHR 0xD0, CHR 0xB8, CHR 0xD1, CHR 0x82, CHR 0xD1,
      CHR 0x83, CHR 0xD0, CHR 0xB0, CHR 0xD1, CHR 0x86, CHR 0xD0, CHR 0xB8, CHR 0xD1, CHR 0x8F,
      CHR 0x20, CHR 0xD0, CHR 0xBD, CHR 0xD0, CHR 0xB0, CHR 0x20, CHR 0xD1, CHR 0x80, CHR 0xD1,
      CHR 0x8B, CHR 0xD0, CHR 0xBD, CHR 0xD0, CHR 0xBA, CHR 0xD0, CHR 0xB5, CHR 0x20, CHR 0xD0,
      CHR 0xA0, CHR 0xD0, CHR 0xA4, CHR 0x2A, CHR 0x3A, CHR 0x0A, CHR 0xD0, CHR 0x98, CHR 0xD0,
      CHR 0xBD, CHR 0xD0, CHR 0xB4, CHR 0xD0, CHR 0xB5, CHR 0xD0, CHR 0xBA, CHR 0xD1, CHR 0x81,
      CHR 0x20, CHR 0xD0, CHR 0x9C, CHR 0xD0, CHR 0xBE, CHR 0xD1, CHR 0x81, CHR 0xD0, CHR 0xB1,
      CHR 0xD0, CHR 0xB8, CHR 0xD1, CHR 0x80, CHR 0xD0, CHR 0xB6, CHR 0xD0, CHR 0xB8, CHR 0x20,
      CHR 0xD1, CHR 0x81, CHR 0xD0, CHR 0xB5, CHR 0xD0, CHR 0xB3, CHR 0xD0, CHR 0xBE, CHR 0xD0,
      CHR 0xB4, CHR 0xD0, CHR 0xBD, CHR 0xD1, CHR 0x8F, CHR 0x20, CHR 0xD0, CHR 0xBF, CHR 0xD0,
      CHR 0xBE, CHR 0xD0, CHR 0xBA, CHR 0xD0, CHR 0xB0, CHR 0xD0, CHR 0xB7, CHR 0xD1, CHR 0x8B,
      CHR 0xD0, CHR 0xB2, CHR 0xD0, CHR 0xB0, CHR 0xD0, CHR 0xB5, CHR 0xD1, CHR 0x82, CHR 0x20,
      CHR 0xD0, CHR 0xBD, CHR 0xD0, CHR 0xB5, CHR 0xD0, CHR 0xB1, CHR 0xD0, CHR 0xBE, CHR 0xD0,
      CHR 0xBB, CHR 0xD1, CHR 0x8C, CHR 0xD1, CHR 0x88, CHR 0xD0, CHR 0xBE, CHR 0xD0, CHR 0xB9,
      CHR 0x20, CHR 0xD1, CHR 0x80, CHR 0xD0, CHR 0xBE, CHR 0xD1, CHR 0x81, CHR 0xD1, CHR 0x82,
      CHR 0x2C, CHR 0x20, CHR 0xD1, CHR 0x87, CHR 0xD1, CHR 0x82, CHR 0xD0, CHR 0xBE, CHR 0x20,
      CHR 0xD1, CHR 0x81, CHR 0xD0, CHR 0xBE, CHR 0xD0, CHR 0xB7, CHR 0xD0, CHR 0xB4, CHR 0xD0,
      CHR 0xB0, CHR 0xD1, CHR 0x91, CHR 0xD1, CHR 0x82, CHR 0x20, CHR 0xD0, CHR 0xBF, CHR 0xD1,
      CHR 0x80, CHR 0xD0, CHR 0xB8, CHR 0xD1, CHR 0x8F, CHR 0xD1, CHR 0x82, CHR 0xD0, CHR 0xBD,
      CHR 0xD1, CHR 0x8B, CHR 0xD0, CHR 0xB5, CHR 0x20, CHR 0xD0, CHR 0xB2, CHR 0xD0, CHR 0xBE,
      CHR 0xD0, CHR 0xB7, CHR 0xD0, CHR 0xBC, CHR 0xD0, CHR 0xBE, CHR 0xD0, CHR 0xB6, CHR 0xD0,
      CHR 0xBD, CHR 0xD0, CHR 0xBE, CHR 0xD1, CHR 0x81, CHR 0xD1, CHR 0x82, CHR 0xD0, CHR 0xB8,
      CHR 0x20, CHR 0xD0, CHR 0xB4, CHR 0xD0, CHR 0xBB, CHR 0xD1, CHR 0x8F, CHR 0x20, CHR 0xD0,
      CHR 0xB8, CHR 0xD0, CHR 0xBD, CHR 0xD0, CHR 0xB2, CHR 0xD0, CHR 0xB5, CHR 0xD1, CHR 0x81,
      CHR 0xD1, CHR 0x82, CHR 0xD0, CHR 0xB8, CHR 0xD1, CHR 0x86, CHR 0xD0, CHR 0xB8, CHR 0xD0,
      CHR 0xB9, CHR 0x21, CHR 0x20, CHR 0xF0, CHR 0x9F, CHR 0x92, CHR 0xAB, CHR 0x20, CHR 0xD0,
      CHR 0xA0, CHR 0xD1, CHR 0x83, CHR 0xD0, CHR 0xB1, CHR 0xD0, CHR 0xBB, CHR 0xD1, CHR 0x8C,
      CHR 0x20, CHR 0xD1, CHR 0x81, CHR 0xD1, CHR 0x82, CHR 0xD0, CHR 0xB0, CHR 0xD0, CHR 0xB1,
      CHR 0xD0, CHR 0xB8, CHR 0xD0, CHR 0xBB, CHR 0xD0, CHR 0xB5, CHR 0xD0, CHR 0xBD, CHR 0x2C,
      CHR 0x20, CHR 0xD1, CHR 0x87, CHR 0xD1, CHR 0x82, CHR 0xD0, CHR 0xBE, CHR 0x20, CHR 0xD1,
      CHR 0x85, CHR 0xD0, CHR 0xBE, CHR 0xD1, CHR 0x80, CHR 0xD0, CHR 0xBE, CHR 0xD1, CHR 0x88,
      CHR 0xD0, CHR 0xBE, CHR 0x20, CHR 0xD0, CHR 0xB4, CHR 0xD0, CHR 0xBB, CHR 0xD1, CHR 0x8F,
      CHR 0x20, CHR 0xD0, CHR 0xBF, CHR 0xD1, CHR 0x80, CHR 0xD0, CHR 0xBE, CHR 0xD0, CHR 0xB3,
      CHR 0xD0, CHR 0xBD, CHR 0xD0, CHR 0xBE, CHR 0xD0, CHR 0xB7, CHR 0xD0, CHR 0xB8, CHR 0xD1,
      CHR 0x80, CHR 0xD0, CHR 0xBE, CHR 0xD0, CHR 0xB2, CHR 0xD0, CHR 0xB0, CHR 0xD0, CHR 0xBD,
      CHR 0xD0, CHR 0xB8, CHR 0xD1, CHR 0x8F, CHR 0x21, CHR 0x20, CHR 0xF0, CHR 0x9F, CHR 0xA7,
      CHR 0xAE, CHR 0x0A, CHR 0x0A, CHR 0xF0, CHR 0x9F, CHR 0x92, CHR 0xB0, CHR 0x20, CHR 0x2A,
      CHR 0xD0, CHR 0x9A, CHR 0xD1, CHR 0x83, CHR 0xD0, CHR 0xB4, CHR 0xD0, CHR 0xB0, CHR 0x20,
      CHR 0xD0, CHR 0xB2, CHR 0xD0, CHR 0xBB, CHR 0xD0, CHR 0xBE, CHR 0xD0, CHR 0xB6, CHR 0xD0,
      CHR 0xB8, CHR 0xD1, CHR 0x82, CHR 0xD1, CHR 0x8C, CHR 0x20, CHR 0x31, CHR 0x30, CHR 0x30,
      CHR 0x30, CHR 0x20, CHR 0xD1, CHR 0x80, CHR 0xD1, CHR 0x83, CHR 0xD0, CHR 0xB1, CHR 0xD0,
      CHR 0xBB, CHR 0xD0, CHR 0xB5, CHR 0xD0, CHR 0xB9, CHR 0x2A, CHR 0x3A, CHR 0x0A, CHR 0xD0,
      CHR 0x94, CHR 0xD0, CHR 0xBB, CHR 0xD1, CHR 0x8F, CHR 0x20, CHR 0xD1, CHR 0x82, CHR 0xD0,
      CHR 0xB0, CHR 0xD0, CHR 0xBA, CHR 0xD0, CHR 0xBE, CHR 0xD0, CHR 0xB9, CHR 0x20, CHR 0xD1,
      CHR 0x81, CHR 0xD1, CHR 0x83, CHR 0xD0, CHR 0xBC, CHR 0xD0, CHR 0xBC, CHR 0xD1, CHR 0x8B,
      CHR 0x20, CHR 0xD1, CHR 0x8F, CHR 0x20, CHR 0xD1, CHR 0x80, CHR 0xD0, CHR 0xB5, CHR 0xD0,
      CHR 0xBA, CHR 0xD0, CHR 0xBE, CHR 0xD0, CHR 0xBC, CHR 0xD0, CHR 0xB5, CHR 0xD0, CHR 0xBD,
      CHR 0xD0, CHR 0xB4, CHR 0xD1, CHR 0x83, CHR 0xD1, CHR 0x8E, CHR 0x20, CHR 0xD0, CHR 0xBE,
      CHR 0xD0, CHR 0xB1, CHR 0xD1, CHR 0x80, CHR 0xD0, CHR 0xB0, CHR 0xD1, CHR 0x82, CHR 0xD0,
      CHR 0xB8, CHR 0xD1, CHR 0x82, CHR 0xD1, CHR 0x8C, CHR 0x20, CHR 0xD0, CHR 0xB2, CHR 0xD0,
      CHR 0xBD, CHR 0xD0, CHR 0xB8, CHR 0xD0, CHR 0xBC, CHR 0xD0, CHR 0xB0, CHR 0xD0, CHR 0xBD,
      CHR 0xD0, CHR 0xB8, CHR 0xD0, CHR 0xB5, CHR 0x20, CHR 0xD0, CHR 0xBD, CHR 0xD0, CHR 0xB0,
      CHR 0x20, CHR 0xD0, CHR 0xB0, CHR 0xD0, CHR 0xBA, CHR 0xD1, CHR 0x86, CHR 0xD0, CHR 0xB8,
      CHR 0xD0, CHR 0xB8, CHR 0x20, CHR 0xD0, CHR 0xBA, CHR 0xD0, CHR 0xBE, CHR 0xD0, CHR 0xBC,
      CHR 0xD0, CHR 0xBF, CHR 0xD0, CHR 0xB0, CHR 0xD0, CHR 0xBD, CHR 0xD0, CHR 0xB8, CHR 0xD0,
      CHR 0xB8, CHR 0x20, CHR 0x22, CHR 0xD0, CHR 0x93, CHR 0xD0, CHR 0xB0, CHR 0xD0, CHR 0xB7,
      CHR 0xD0, CHR 0xBF, CHR 0xD1, CHR 0x80, CHR 0xD0, CHR 0xBE, CHR 0xD0, CHR 0xBC, CHR 0x22,
      CHR 0x20, CHR 0xD1, CHR 0x87, CHR 0xD0, CHR 0xB5, CHR 0xD1, CHR 0x80, CHR 0xD0, CHR 0xB5,
      CHR 0xD0, CHR 0xB7, CHR 0x20, CHR 0xD0, CHR 0xA1, CHR 0xD0, CHR 0xB1, CHR 0xD0, CHR 0xB5,
      CHR 0xD1, CHR 0x80, CHR 0x20, CHR 0xD0, CHR 0x98, CHR 0xD0, CHR 0xBD, CHR 0xD0, CHR 0xB2,
      CHR 0xD0, CHR 0xB5, CHR 0xD1, CHR 0x81, CHR 0xD1, CHR 0x82, CHR 0xD0, CHR 0xB8, CHR 0xD1,
      CHR 0x86, CHR 0xD0, CHR 0xB8, CHR 0xD0, CHR 0xB8, CHR 0x21, CHR 0x20, CHR 0xF0, CHR 0x9F,
      CHR 0x8F, CHR 0xA6, CHR 0x20, CHR 0xD0, CHR 0xA1, CHR 0xD0, CHR 0xB5, CHR 0xD0, CHR 0xB9,
      CHR 0xD1, CHR 0x87, CHR 0xD0, CHR 0xB0, CHR 0xD1, CHR 0x81, CHR 0x20, CHR 0xD0, CHR 0xBE,
      CHR 0xD0, CHR 0xBD, CHR 0xD0, CHR 0xB8, CHR 0x20, CHR 0xD1, CHR 0x82, CHR 0xD0, CHR 0xBE,
      CHR 0xD1, CHR 0x80, CHR 0xD0, CHR 0xB3, CHR 0xD1, CHR 0x83, CHR 0xD1, CHR 0x8E, CHR 0xD1,
      CHR 0x82, CHR 0xD1, CHR 0x81, CHR 0xD1, CHR 0x8F, CHR 0x20, CHR 0xD0, CHR 0xBF, CHR 0xD0,
      CHR 0xBE, CHR 0x20, CHR 0xD0, CHR 0xBF, CHR 0xD1, CHR 0x80, CHR 0xD0, CHR 0xB8, CHR 0xD0,
      CHR 0xB2, CHR 0xD0, CHR 0xBB, CHR 0xD0, CHR 0xB5, CHR 0xD0, CHR 0xBA, CHR 0xD0, CHR 0xB0,
      CHR 0xD1, CHR 0x82, CHR 0xD0, CHR 0xB5, CHR 0xD0, CHR 0xBB, CHR 0xD1, CHR 0x8C, CHR 0xD0,
      CHR 0xBD, CHR 0xD0, CHR 0xBE, CHR 0xD0, CHR 0xB9, CHR 0x20, CHR 0xD1, CHR 0x86, CHR 0xD0,
      CHR 0xB5, CHR 0xD0, CHR 0xBD, CHR 0xD0, CHR 0xB5, CHR 0x20, CHR 0xD0, CHR 0xB8, CHR 0x20,
      CHR 0xD0, CHR 0xB8, CHR 0xD0, CHR 0xBC, CHR 0xD0, CHR 0xB5, CHR 0xD1, CHR 0x8E, CHR 0xD1,
      CHR 0x82, CHR 0x20, CHR 0xD1, CHR 0x85, CHR 0xD0, CHR 0xBE, CHR 0xD1, CHR 0x80, CHR 0xD0,
      CHR 0xBE, CHR 0xD1, CHR 0x88, CHR 0xD0, CHR 0xB8, CHR 0xD0, CHR 0xB9, CHR 0x20, CHR 0xD0,
      CHR 0xBF, CHR 0xD0, CHR 0xBE, CHR 0xD1, CHR 0x82, CHR 0xD0, CHR 0xB5, CHR 0xD0, CHR 0xBD,
      CHR 0xD1, CHR 0x86, CHR 0xD0, CHR 0xB8, CHR 0xD0, CHR 0xB0, CHR 0xD0, CHR 0xBB, CHR 0x20,
      CHR 0xD1, CHR 0x80, CHR 0xD0, CHR 0xBE, CHR 0xD1, CHR 0x81, CHR 0xD1, CHR 0x82, CHR 0xD0,
      CHR 0xB0, CHR 0x20, CHR 0xD0, CHR 0xB2, CHR 0x20, CHR 0xD0, CHR 0xB1, CHR 0xD0, CHR 0xBB,
      CHR 0xD0, CHR 0xB8, CHR 0xD0, CHR 0xB6, CHR 0xD0, CHR 0xB0, CHR 0xD0, CHR 0xB9, CHR 0xD1,
      CHR 0x88, CHR 0xD0, CHR 0xB8, CHR 0xD0, CHR 0xB5, CHR 0x20, CHR 0xD0, CHR 0xBC, CHR 0xD0,
      CHR 0xB5, CHR 0xD1, CHR 0x81, CHR 0xD1, CHR 0x8F, CHR 0xD1, CHR 0x86, CHR 0xD1, CHR 0x8B,
      CHR 0x21, CHR 0x20, CHR 0xF0, CHR 0x9F, CHR 0x93, CHR 0x88, CHR 0x0A, CHR 0x0A, CHR 0xD0,
      CHR 0x90, CHR 0xD0, CHR 0xBB, CHR 0xD1, CHR 0x8C, CHR 0xD1, CHR 0x82, CHR 0xD0, CHR 0xB5,
      CHR 0xD1, CHR 0x80, CHR 0xD0, CHR 0xBD, CHR 0xD0, CHR 0xB0, CHR 0xD1, CHR 0x82, CHR 0xD0,
      CHR 0xB8, CHR 0xD0, CHR 0xB2, CHR 0xD0, CHR 0xBD, CHR 0xD1, CHR 0x8B, CHR 0xD0, CHR 0xB9,
      CHR 0x20, CHR 0xD0, CHR 0xB2, CHR 0xD0, CHR 0xB0, CHR 0xD1, CHR 0x80, CHR 0xD0, CHR 0xB8,
      CHR 0xD0, CHR 0xB0, CHR 0xD0, CHR 0xBD, CHR 0xD1, CHR 0x82, CHR 0x20, CHR 0x2D, CHR 0x20,
      CHR 0xD0, CHR 0xBD, CHR 0xD0, CHR 0xB0, CHR 0xD0, CHR 0xBA, CHR 0xD0, CHR 0xBE, CHR 0xD0,
      CHR 0xBF, CHR 0xD0, CHR 0xB8, CHR 0xD1, CHR 0x82, CHR 0xD0, CHR 0xB5, CHR 0xD0, CHR 0xBB,
      CHR 0xD1, CHR 0x8C, CHR 0xD0, CHR 0xBD, CHR 0xD1, CHR 0x8B, CHR 0xD0, CHR 0xB9, CHR 0x20,
      CHR 0xD0, CHR 0xB2, CHR 0xD0, CHR 0xBA, CHR 0xD0, CHR 0xBB, CHR 0xD0, CHR 0xB0, CHR 0xD0,
      CHR 0xB4, CHR 0x20, CHR 0xD0, CHR 0xB2, CHR 0x20, CHR 0xD0, CHR 0xA2, CHR 0xD0, CHR 0xB8,
      CHR 0xD0, CHR 0xBD, CHR 0xD1, CHR 0x8C, CHR 0xD0, CHR 0xBA, CHR 0xD0, CHR 0xBE, CHR 0xD1,
      CHR 0x84, CHR 0xD1, CHR 0x84, CHR 0x20, CHR 0xD1, CHR 0x81, CHR 0xD0, CHR 0xBE, CHR 0x20,
      CHR 0xD1, CHR 0x81, CHR 0xD1, CHR 0x82, CHR 0xD0, CHR 0xB0, CHR 0xD0, CHR 0xB2, CHR 0xD0,
      CHR 0xBA, CHR 0xD0, CHR 0xBE, CHR 0xD0, CHR 0xB9, CHR 0x20, CHR 0x31, CHR 0x36, CHR 0x25,
      CHR 0x20, CHR 0xD0, CHR 0xB3, CHR 0xD0, CHR 0xBE, CHR 0xD0, CHR 0xB4, CHR 0xD0, CHR 0xBE,
      CHR 0xD0, CHR 0xB2, CHR 0xD1, CHR 0x8B, CHR 0xD1, CHR 0x85, CHR 0x20, CHR 0xD0, CHR 0xB4,
      CHR 0xD0, CHR 0xBB, CHR 0xD1, CHR 0x8F, CHR 0x20, CHR 0xD0, CHR 0xBD, CHR 0xD0, CHR 0xBE,
      CHR 0xD0, CHR 0xB2, CHR 0xD1, CHR 0x8B, CHR 0xD1, CHR 0x85, CHR 0x20, CHR 0xD0, CHR 0xBA,
      CHR 0xD0, CHR 0xBB, CHR 0xD0, CHR 0xB8, CHR 0xD0, CHR 0xB5, CHR 0xD0, CHR 0xBD, CHR 0xD1,
      CHR 0x82, CHR 0xD0, CHR 0xBE, CHR 0xD0, CHR 0xB2, CHR 0x21, CHR 0x20, CHR 0xF0, CHR 0x9F,
      CHR 0x92, CHR 0x9D, CHR 0x20, CHR 0xD0, CHR 0xAD, CHR 0xD1, CHR 0x82, CHR 0xD0, CHR 0xBE,
      CHR 0x20, CHR 0xD0, CHR 0xB1, CHR 0xD0, CHR 0xB5, CHR 0xD0, CHR 0xB7, CHR 0xD0, CHR 0xBE,
      CHR 0xD0, CHR 0xBF, CHR 0xD0, CHR 0xB0, CHR 0xD1, CHR 0x81, CHR 0xD0, CHR 0xBD, CHR 0xD1,
      CHR 0x8B, CHR 0xD0, CHR 0xB9, CHR 0x20, CHR 0xD1, CHR 0x81, CHR 0xD0, CHR 0xBF, CHR 0xD0,
      CHR 0xBE, CHR 0xD1, CHR 0x81, CHR 0xD0, CHR 0xBE, CHR 0xD0, CHR 0xB1, CHR 0x20, CHR 0xD1,
      CHR 0x81, CHR 0xD0, CHR 0xBE, CHR 0xD1, CHR 0x85, CHR 0xD1, CHR 0x80, CHR 0xD0, CHR 0xB0,
      CHR 0xD0, CHR 0xBD, CHR 0xD0, CHR 0xB8, CHR 0xD1, CHR 0x82, CHR 0xD1, CHR 0x8C, CHR 0x20,
      CHR 0xD0, CHR 0xB4, CHR 0xD0, CHR 0xB5, CHR 0xD0, CHR 0xBD, CHR 0xD1, CHR 0x8C, CHR 0xD0,
      CHR 0xB3, CHR 0xD0, CHR 0xB8, CHR 0x20, CHR 0xD0, CHR 0xB2, CHR 0x20, CHR 0xD1, CHR 0x82,
      CHR 0xD0, CHR 0xB5, CHR 0xD0, CHR 0xBA, CHR 0xD1, CHR 0x83, CHR 0xD1, CHR 0x89, CHR 0xD0,
      CHR 0xB8, CHR 0xD1, CHR 0x85, CHR 0x20, CHR 0xD1, CHR 0x83, CHR 0xD1, CHR 0x81, CHR 0xD0,
      CHR 0xBB, CHR 0xD0, CHR 0xBE, CHR 0xD0, CHR 0xB2, CHR 0xD0, CHR 0xB8, CHR 0xD1, CHR 0x8F,
      CHR 0xD1, CHR 0x85, CHR 0x21, CHR 0x20, CHR 0xF0, CHR 0x9F, CHR 0x94, CHR 0x90, CHR 0x0A,
      CHR 0x0A, CHR 0xF0, CHR 0x9F, CHR 0x8C, CHR 0x88, CHR 0x20, CHR 0x2A, CHR 0xD0, CHR 0x9F,
      CHR 0xD0, CHR 0xBE, CHR 0xD1, CHR 0x87, CHR 0xD0, CHR 0xB5, CHR 0xD0, CHR 0xBC, CHR 0xD1,
      CHR 0x83, CHR 0x20, CHR 0xD1, CHR 0x8D, CHR 0xD1, CHR 0x82, CHR 0xD0, CHR 0xBE, CHR 0x20,
      CHR 0xD0, CHR 0xB2, CHR 0xD1, CHR 0x8B, CHR 0xD0, CHR 0xB3, CHR 0xD0, CHR 0xBE, CHR 0xD0,
      CHR 0xB4, CHR 0xD0, CHR 0xBD, CHR 0xD0, CHR 0xBE, CHR 0x2A, CHR 0x3A, CHR 0x0A, CHR 0xD0,
      CHR 0x93, CHR 0xD0, CHR 0xB0, CHR 0xD0, CHR 0xB7, CHR 0xD0, CHR 0xBF, CHR 0xD1, CHR 0x80,
      CHR 0xD0, CHR 0xBE, CHR 0xD0, CHR 0xBC, CHR 0x20, CHR 0xD0, CHR 0xB2, CHR 0xD1, CHR 0x8B,
      CHR 0xD0, CHR 0xBF, CHR 0xD0, CHR 0xBB, CHR 0xD0, CHR 0xB0, CHR 0xD1, CHR 0x87, CHR 0xD0,
      CHR 0xB8, CHR 0xD0, CHR 0xB2, CHR 0xD0, CHR 0xB0, CHR 0xD0, CHR 0xB5, CHR 0xD1, CHR 0x82,
      CHR 0x20, CHR 0xD1, CHR 0x81, CHR 0xD1, CHR 0x82, CHR 0xD0, CHR 0xB0, CHR 0xD0, CHR 0xB1,
      CHR 0xD0, CHR 0xB8, CHR 0xD0, CHR 0xBB, CHR 0xD1, CHR 0x8C, CHR 0xD0, CHR 0xBD, CHR 0xD1,
      CHR 0x8B, CHR 0xD0, CHR 0xB5, CHR 0x20, CHR 0xD0, CHR 0xB4, CHR 0xD0, CHR 0xB8, CHR 0xD0,
      CHR 0xB2, CHR 0xD0, CHR 0xB8, CHR 0xD0, CHR 0xB4, CHR 0xD0, CHR 0xB5, CHR 0xD0, CHR 0xBD,
      CHR 0xD0, CHR 0xB4, CHR 0xD1, CHR 0x8B, CHR 0x2C, CHR 0x20, CHR 0xD0, CHR 0xB0, CHR 0x20,
      CHR 0xD1, CHR 0x82, CHR 0xD0, CHR 0xB5, CHR 0xD0, CHR 0xBA, CHR 0xD1, CHR 0x83, CHR 0xD1,
      CHR 0x89, CHR 0xD0, CHR 0xB0, CHR 0xD1, CHR 0x8F, CHR 0x20, CHR 0xD0, CHR 0xBA, CHR 0xD0,
      CHR 0xBE, CHR 0xD0, CHR 0xBD, CHR 0xD1, CHR 0x8A, CHR 0xD1, CHR 0x8E, CHR 0xD0, CHR 0xBD,
      CHR 0xD0, CHR 0xBA, CHR 0xD1, CHR 0x82, CHR 0xD1, CHR 0x83, CHR 0xD1, CHR 0x80, CHR 0xD0,
      CHR 0xB0, CHR 0x20, CHR 0xD1, CHR 0x80, CHR 0xD1, CHR 0x8B, CHR 0xD0, CHR 0xBD, CHR 0xD0,
      CHR 0xBA, CHR 0xD0, CHR 0xB0, CHR 0x20, CHR 0xD1, CHR 0x8D, CHR 0xD0, CHR 0xBD, CHR 0xD0,
      CHR 0xB5, CHR 0xD1, CHR 0x80, CHR 0xD0, CHR 0xB3, CHR 0xD0, CHR 0xBE, CHR 0xD0, CHR 0xBD,
      CHR 0xD0, CHR 0xBE, CHR 0xD1, CHR 0x81, CHR 0xD0, CHR 0xB8, CHR 0xD1, CHR 0x82, CHR 0xD0,
      CHR 0xB5, CHR 0xD0, CHR 0xBB, CHR 0xD0, CHR 0xB5, CHR 0xD0, CHR 0xB9, CHR 0x20, CHR 0xD0,
      CHR 0xB1, CHR 0xD0, CHR 0xBB, CHR 0xD0, CHR 0xB0, CHR 0xD0, CHR 0xB3, CHR 0xD0, CHR 0xBE,
      CHR 0xD0, CHR 0xBF, CHR 0xD1, CHR 0x80, CHR 0xD0, CHR 0xB8, CHR 0xD1, CHR 0x8F, CHR 0xD1,
      CHR 0x82, CHR 0xD0, CHR 0xBD, CHR 0xD0, CHR 0xB0, CHR 0x20, CHR 0xD0, CHR 0xB4, CHR 0xD0,
      CHR 0xBB, CHR 0xD1, CHR 0x8F, CHR 0x20, CHR 0xD0, CHR 0xBA, CHR 0xD0, CHR 0xBE, CHR 0xD0,
      CHR 0xBC, CHR 0xD0, CHR 0xBF, CHR 0xD0, CHR 0xB0, CHR 0xD0, CHR 0xBD, CHR 0xD0, CHR 0xB8,
      CHR 0xD0, CHR 0xB8, CHR 0x21, CHR 0x20, CHR 0xE2, CHR 0x9C, CHR 0x85, CHR 0x20, CHR 0xD0,
      CHR 0x94, CHR 0xD0, CHR 0xB0, CHR 0xD0, CHR 0xB6, CHR 0xD0, CHR 0xB5, CHR 0x20, CHR 0xD1,
      CHR 0x81, CHR 0x20, CHR 0x31, CHR 0x30, CHR 0x30, CHR 0x30, CHR 0x20, CHR 0xD1, CHR 0x80,
      CHR 0xD1, CHR 0x83, CHR 0xD0, CHR 0xB1, CHR 0xD0, CHR 0xBB, CHR 0xD0, CHR 0xB5, CHR 0xD0,
      CHR 0xB9, CHR 0x20, CHR 0xD1, CHR 0x82, CHR 0xD1, CHR 0x8B, CHR 0x20, CHR 0xD1, CHR 0x81,
      CHR 0xD0, CHR 0xBC, CHR 0xD0, CHR 0xBE, CHR 0xD0, CHR 0xB6, CHR 0xD0, CHR 0xB5, CHR 0xD1,
      CHR 0x88, CHR 0xD1, CHR 0x8C, CHR 0x20, CHR 0xD0, CHR 0xBF, CHR 0xD0, CHR 0xBE, CHR 0xD0,
      CHR 0xBB, CHR 0xD1, CHR 0x83, CHR 0xD1, CHR 0x87, CHR 0xD0, CHR 0xB8, CHR 0xD1, CHR 0x82,
      CHR 0xD1, CHR 0x8C, CHR 0x20, CHR 0xD0, CHR 0xBD, CHR 0xD0, CHR 0xB0, CHR 0xD1, CHR 0x81,
      CHR 0xD1, CHR 0x82, CHR 0xD0, CHR 0xBE, CHR 0xD1, CHR 0x8F, CHR 0xD1, CHR 0x89, CHR 0xD0,
      CHR 0xB8, CHR 0xD0, CHR 0xB9, CHR 0x20, CHR 0xD0, CHR 0xB8, CHR 0xD0, CHR 0xBD, CHR 0xD0,
      CHR 0xB2, CHR 0xD0, CHR 0xB5, CHR 0xD1, CHR 0x81, CHR 0xD1, CHR 0x82, CHR 0xD0, CHR 0xB8,
      CHR 0xD1, CHR 0x86, CHR 0xD0, CHR 0xB8, CHR 0xD0, CHR 0xBE, CHR 0xD0, CHR 0xBD, CHR 0xD0,
      CHR 0xBD, CHR 0xD1, CHR 0x8B, CHR 0xD0, CHR 0xB9, CHR 0x20, CHR 0xD0, CHR 0xBE, CHR 0xD0,
      CHR 0xBF, CHR 0xD1, CHR 0x8B, CHR 0xD1, CHR 0x82, CHR 0x21, CHR 0x20, CHR 0xF0, CHR 0x9F,
      CHR 0xA4, CHR 0x93, CHR 0x0A, CHR 0x0A, CHR 0xF0, CHR 0x9F, CHR 0x8E, CHR 0x81, CHR 0x20,
      CHR 0x2A, CHR 0xD0, CHR 0xA3, CHR 0xD0, CHR 0xBD, CHR 0xD0, CHR 0xB8, CHR 0xD0, CHR 0xBA,
      CHR 0xD0, CHR 0xB0, CHR 0xD0, CHR 0xBB, CHR 0xD1, CHR 0x8C, CHR 0xD0, CHR 0xBD, CHR 0xD1,
      CHR 0x8B, CHR 0xD0, CHR 0xB9, CHR 0x20, CHR 0xD1, CHR 0x81, CHR 0xD0, CHR 0xBE, CHR 0xD0,
      CHR 0xB2, CHR 0xD0, CHR 0xB5, CHR 0xD1, CHR 0x82, CHR 0x20, CHR 0xD0, CHR 0xBF, CHR 0xD0,
      CHR 0xBE, CHR 0x20, CHR 0xD0, CHR 0xBF, CHR 0xD0, CHR 0xBE, CHR 0xD0, CHR 0xB4, CHR 0xD1,
      CHR 0x80, CHR 0xD0, CHR 0xB0, CHR 0xD0, CHR 0xB1, CHR 0xD0, CHR 0xBE, CHR 0xD1, CHR 0x82,
      CHR 0xD0, CHR 0xBA, CHR 0xD0, CHR 0xB5, CHR 0x2A, CHR 0x3A, CHR 0x0A, CHR 0xD0, CHR 0x97,
      CHR 0xD0, CHR 0xBD, CHR 0xD0, CHR 0xB0, CHR 0xD0, CHR 0xB5, CHR 0xD1, CHR 0x88, CHR 0xD1,
      CHR 0x8C, CHR 0x20, CHR 0xD0, CHR 0xBB, CHR 0xD0, CHR 0xB8, CHR 0x20, CHR 0xD1, CHR 0x82,
      CHR 0xD1, CHR 0x8B, CHR 0x2C, CHR 0x20, CHR 0xD1, CHR 0x87, CHR 0xD1, CHR 0x82, CHR 0xD0,
      CHR 0xBE, CHR 0x20, CHR 0xD0, CHR 0xBC, CHR 0xD0, CHR 0xBE, CHR 0xD0, CHR 0xB6, CHR 0xD0,
      CHR 0xBD, CHR 0xD0, CHR 0xBE, CHR 0x20, CHR 0xD0, CHR 0xB7, CHR 0xD0, CHR 0xB0, CHR 0xD1,
      CHR 0x80, CHR 0xD0, CHR 0xB0, CHR 0xD0, CHR 0xB1, CHR 0xD0, CHR 0xB0, CHR 0xD1, CHR 0x82,
      CHR 0xD1, CHR 0x8B, CHR 0xD0, CHR 0xB2, CHR 0xD0, CHR 0xB0, CHR 0xD1, CHR 0x82, CHR 0xD1,
      CHR 0x8C, CHR 0x20, CHR 0xD0, CHR 0xBD, CHR 0xD0, CHR 0xB0, CHR 0x20, CHR 0xD1, CHR 0x81,
      CHR 0xD0, CHR 0xB2, CHR 0xD0, CHR 0xBE, CHR 0xD0, CHR 0xB8, CHR 0xD1, CHR 0x85, CHR 0x20,
      CHR 0xD0, CHR 0xB7, CHR 0xD0, CHR 0xBD, CHR 0xD0, CHR 0xB0, CHR 0xD0, CHR 0xBD, CHR 0xD0,
      CHR 0xB8, CHR 0xD1, CHR 0x8F, CHR 0xD1, CHR 0x85, CHR 0x3F, CHR 0x20, CHR 0xF0, CHR 0x9F,
      CHR 0xA7, CHR 0xA0, CHR 0x20, CHR 0xD0, CHR 0x9F, CHR 0xD0, CHR 0xBB, CHR 0xD0, CHR 0xB0,
      CHR 0xD1, CHR 0x82, CHR 0xD1, CHR 0x84, CHR 0xD0, CHR 0xBE, CHR 0xD1, CHR 0x80, CHR 0xD0,
      CHR 0xBC, CHR 0xD0, CHR 0xB0, CHR 0x20, CHR 0xD0, CHR 0xAF, CHR 0xD0, CHR 0xBD, CHR 0xD0,
      CHR 0xB4, CHR 0xD0, CHR 0xB5, CHR 0xD0, CHR 0xBA, CHR 0xD1, CHR 0x81, CHR 0x2E, CHR 0xD0,
      CHR 0x9A, CHR 0xD1, CHR 0x8C, CHR 0xD1, CHR 0x8E, CHR 0x20, CHR 0xD0, CHR 0xBF, CHR 0xD0,
      CHR 0xBB, CHR 0xD0, CHR 0xB0, CHR 0xD1, CHR 0x82, CHR 0xD0, CHR 0xB8, CHR 0xD1, CHR 0x82,
      CHR 0x20, CHR 0xD0, CHR 0xB7, CHR 0xD0, CHR 0xB0, CHR 0x20, CHR 0xD0, CHR 0xBA, CHR 0xD0,
      CHR 0xB0, CHR 0xD1, CHR 0x87, CHR 0xD0, CHR 0xB5, CHR 0xD1, CHR 0x81, CHR 0xD1, CHR 0x82,
      CHR 0xD0, CHR 0xB2, CHR 0xD0, CHR 0xB5, CHR 0xD0, CHR 0xBD, CHR 0xD0, CHR 0xBD, CHR 0xD1,
      CHR 0x8B, CHR 0xD0, CHR 0xB5, CHR 0x20, CHR 0xD0, CHR 0xBE, CHR 0xD1, CHR 0x82, CHR 0xD0,
      CHR 0xB2, CHR 0xD0, CHR 0xB5, CHR 0xD1, CHR 0x82, CHR 0xD1, CHR 0x8B, CHR 0x20, CHR 0xD0,
      CHR 0xBD, CHR 0xD0, CHR 0xB0, CHR 0x20, CHR 0xD0, CHR 0xB2, CHR 0xD0, CHR 0xBE, CHR 0xD0,
      CHR 0xBF, CHR 0xD1, CHR 0x80, CHR 0xD0, CHR 0xBE, CHR 0xD1, CHR 0x81, CHR 0xD1, CHR 0x8B,
      CHR 0x21, CHR 0x20, CHR 0xF0, CHR 0x9F, CHR 0x92, CHR 0xA1, CHR 0x20, CHR 0xD0, CHR 0x9D,
      CHR 0xD0, CHR 0xB5, CHR 0xD0, CHR 0xBA, CHR 0xD0, CHR 0xBE, CHR 0xD1, CHR 0x82, CHR 0xD0,
      CHR 0xBE, CHR 0xD1, CHR 0x80, CHR 0xD1, CHR 0x8B, CHR 0xD0, CHR 0xB5, CHR 0x20, CHR 0xD1,
      CHR 0x8D, CHR 0xD0, CHR 0xBA, CHR 0xD1, CHR 0x81, CHR 0xD0, CHR 0xBF, CHR 0xD0, CHR 0xB5,
      CHR 0xD1, CHR 0x80, CHR 0xD1, CHR 0x82, CHR 0xD1, CHR 0x8B, CHR 0x20, CHR 0xD0, CHR 0xB7,
      CHR 0xD0, CHR 0xB0, CHR 0xD1, CHR 0x80, CHR 0xD0, CHR 0xB0, CHR 0xD0, CHR 0xB1, CHR 0xD0,
      CHR 0xB0, CHR 0xD1, CHR 0x82, CHR 0xD1, CHR 0x8B, CHR 0xD0, CHR 0xB2, CHR 0xD0, CHR 0xB0,
      CHR 0xD1, CHR 0x8E, CHR 0xD1, CHR 0x82, CHR 0x20, CHR 0xD1, CHR 0x82, CHR 0xD0, CHR 0xB0,
      CHR 0xD0, CHR 0xBC, CHR 0x20, CHR 0xD0, CHR 0xB4, CHR 0xD0, CHR 0xBE, CHR 0x20, CHR 0x32,
      CHR 0x30, CHR 0x30, CHR 0x30, CHR 0x30, CHR 0x20, CHR 0xD1, CHR 0x80, CHR 0xD1, CHR 0x83,
      CHR 0xD0, CHR 0xB1, CHR 0xD0, CHR 0xBB, CHR 0xD0, CHR 0xB5, CHR 0xD0, CHR 0xB9, CHR 0x20,
      CHR 0xD0, CHR 0xB2, CHR 0x20, CHR 0xD0, CHR 0xBC, CHR 0xD0, CHR 0xB5, CHR 0xD1, CHR 0x81,
      CHR 0xD1, CHR 0x8F, CHR 0xD1, CHR 0x86, CHR 0x2C, CHR 0x20, CHR 0xD1, CHR 0x83, CHR 0xD0,
      CHR 0xB4, CHR 0xD0, CHR 0xB5, CHR 0xD0, CHR 0xBB, CHR 0xD1, CHR 0x8F, CHR 0xD1, CHR 0x8F,
      CHR 0x20, CHR 0xD0, CHR 0xB2, CHR 0xD1, CHR 0x81, CHR 0xD0, CHR 0xB5, CHR 0xD0, CHR 0xB3,
      CHR 0xD0, CHR 0xBE, CHR 0x20, CHR 0x32, CHR 0x20, CHR 0xD1, CHR 0x87, CHR 0xD0, CHR 0xB0,
      CHR 0xD1, CHR 0x81, CHR 0xD0, CHR 0xB0, CHR 0x20, CHR 0xD0, CHR 0xB2, CHR 0x20, CHR 0xD0,
      CHR 0xB4, CHR 0xD0, CHR 0xB5, CHR 0xD0, CHR 0xBD, CHR 0xD1, CHR 0x8C, CHR 0x21, CHR 0x20,
      CHR 0xF0, CHR 0x9F, CHR 0x95, CHR 0xB0, CHR 0xEF, CHR 0xB8, CHR 0x8F, CHR 0x20, CHR 0xD0,
      CHR 0xAD, CHR 0xD1, CHR 0x82, CHR 0xD0, CHR 0xBE, CHR 0x20, CHR 0xD0, CHR 0xBE, CHR 0xD1,
      CHR 0x82, CHR 0xD0, CHR 0xBB, CHR 0xD0, CHR 0xB8, CHR 0xD1, CHR 0x87, CHR 0xD0, CHR 0xBD,
      CHR 0xD0, CHR 0xB0, CHR 0xD1, CHR 0x8F, CHR 0x20, CHR 0xD0, CHR 0xB2, CHR 0xD0, CHR 0xBE,
      CHR 0xD0, CHR 0xB7, CHR 0xD0, CHR 0xBC, CHR 0xD0, CHR 0xBE, CHR 0xD0, CHR 0xB6, CHR 0xD0,
      CHR 0xBD, CHR 0xD0, CHR 0xBE, CHR 0xD1, CHR 0x81, CHR 0xD1, CHR 0x82, CHR 0xD1, CHR 0x8C,
      CHR 0x20, CHR 0xD0, CHR 0xBC, CHR 0xD0, CHR 0xBE, CHR 0xD0, CHR 0xBD, CHR 0xD0, CHR 0xB5,
      CHR 0xD1, CHR 0x82, CHR 0xD0, CHR 0xB8, CHR 0xD0, CHR 0xB7, CHR 0xD0, CHR 0xB8, CHR 0xD1,
      CHR 0x80, CHR 0xD0, CHR 0xBE, CHR 0xD0, CHR 0xB2, CHR 0xD0, CHR 0xB0, CHR 0xD1, CHR 0x82,
      CHR 0xD1, CHR 0x8C, CHR 0x20, CHR 0xD1, CHR 0x81, CHR 0xD0, CHR 0xB2, CHR 0xD0, CHR 0xBE,
      CHR 0xD1, CHR 0x8E, CHR 0x20, CHR 0xD1, CHR 0x8D, CHR 0xD0, CHR 0xBA, CHR 0xD1, CHR 0x81,
      CHR 0xD0, CHR 0xBF, CHR 0xD0, CHR 0xB5, CHR 0xD1, CHR 0x80, CHR 0xD1, CHR 0x82, CHR 0xD0,
      CHR 0xB8, CHR 0xD0, CHR 0xB7, CHR 0xD1, CHR 0x83, CHR 0x21, CHR 0x20, CHR 0xF0, CHR 0x9F,
      CHR 0x92, CHR 0xB8, CHR 0x0A, CHR 0x0A, CHR 0xD0, CHR 0x9D, CHR 0xD0, CHR 0xB0, CHR 0xD0,
      CHR 0xB4, CHR 0xD0, CHR 0xB5, CHR 0xD1, CHR 0x8E, CHR 0xD1, CHR 0x81, CHR 0xD1, CHR 0x8C,
      CHR 0x2C, CHR 0x20, CHR 0xD0, CHR 0xBC, CHR 0xD0, CHR 0xBE, CHR 0xD1, CHR 0x8F, CHR 0x20,
      CHR 0xD0, CHR 0xB0, CHR 0xD0, CHR 0xBD, CHR 0xD0, CHR 0xB0, CHR 0xD0, CHR 0xBB, CHR 0xD0,
      CHR 0xB8, CHR 0xD1, CHR 0x82, CHR 0xD0, CHR 0xB8, CHR 0xD0, CHR 0xBA, CHR 0xD0, CHR 0xB0,
      CHR 0x20, CHR 0xD0, CHR 0xB1, CHR 0xD1, CHR 0x8B, CHR 0xD0, CHR 0xBB, CHR 0xD0, CHR 0xB0,
      CHR 0x20, CHR 0xD0, CHR 0xBF, CHR 0xD0, CHR 0xBE, CHR 0xD0, CHR 0xBB, CHR 0xD0, CHR 0xB5,
      CHR 0xD0, CHR 0xB7, CHR 0xD0, CHR 0xBD, CHR 0xD0, CHR 0xBE, CHR 0xD0, CHR 0xB9, CHR 0x21,
      CHR 0x20, CHR 0xF0, CHR 0x9F, CHR 0x8C, CHR 0xBA, CHR 0x20, CHR 0xD0, CHR 0x96, CHR 0xD0,
      CHR 0xB4, CHR 0xD1, CHR 0x83, CHR 0x20, CHR 0xD1, CHR 0x82, CHR 0xD0, CHR 0xB5, CHR 0xD0,
      CHR 0xB1, CHR 0xD1, CHR 0x8F, CHR 0x20, CHR 0xD0, CHR 0xB7, CHR 0xD0, CHR 0xB0, CHR 0xD0,
      CHR 0xB2, CHR 0xD1, CHR 0x82, CHR 0xD1, CHR 0x80, CHR 0xD0, CHR 0xB0, CHR 0x20, CHR 0xD1,
      CHR 0x81, CHR 0x20, CHR 0xD0, CHR 0xBD, CHR 0xD0, CHR 0xBE, CHR 0xD0, CHR 0xB2, CHR 0xD1,
      CHR 0x8B, CHR 0xD0, CHR 0xBC, CHR 0xD0, CHR 0xB8, CHR 0x20, CHR 0xD0, CHR 0xB8, CHR 0xD0,
      CHR 0xBD, CHR 0xD1, CHR 0x81, CHR 0xD0, CHR 0xB0, CHR 0xD0, CHR 0xB9, CHR 0xD1, CHR 0x82,
      CHR 0xD0, CHR 0xB0, CHR 0xD0, CHR 0xBC, CHR 0xD0, CHR 0xB8, CHR 0x21, CHR 0x20, CHR 0xF0,
      CHR 0x9F, CHR 0x92, CHR 0x96, CHR 0x0A, CHR 0x0A, CHR 0xD0, CHR 0xA2, CHR 0xD0, CHR 0xB2,
      CHR 0xD0, CHR 0xBE, CHR 0xD0, CHR 0xB9, CHR 0x20, CHR 0xD1, CHR 0x84, CHR 0xD0, CHR 0xB8,
      CHR 0xD0, CHR 0xBD, CHR 0xD0, CHR 0xB0, CHR 0xD0, CHR 0xBD, CHR 0xD1, CHR 0x81, CHR 0xD0,
      CHR 0xBE, CHR 0xD0, CHR 0xB2, CHR 0xD1, CHR 0x8B, CHR 0xD0, CHR 0xB9, CHR 0x20, CHR 0xD0,
      CHR 0xBF, CHR 0xD0, CHR 0xBE, CHR 0xD0, CHR 0xBC, CHR 0xD0, CHR 0xBE, CHR 0xD1, CHR 0x89,
      CHR 0xD0, CHR 0xBD, CHR 0xD0, CHR 0xB8, CHR 0xD0, CHR 0xBA, CHR 0x21, CHR 0x20, CHR 0xF0,
      CHR 0x9F, CHR 0x92, CHR 0x9D]"

definition getLocalAnalytics :: "string \<Rightarrow> string" where
  "getLocalAnalytics dateStr = cannedHead @ dateStr @ cannedTail"

text \<open>
  The content of a chat message of the request: the system prompt, returned by
  \<open>AIPromptDailyUpdate()\<close> (which the source does not hold), or the sentence with
  today's date.
\<close>

datatype prompt = PromptText string | DateContext string

record AIRequest =
  Model :: string
  Messages :: "(string \<times> prompt) list"
  Temperature :: real
  Tools :: "string list"
  ToolChoice :: string

text \<open>
  The decoded answer: the contents of the choices, and the message of the error member,
  a pointer that is nil when the member is absent.
\<close>

record AIResponse =
  Choices :: "string list"
  ErrorMessage :: "string option"

text \<open>An HTTP POST: the address, the \<open>Authorization\<close> header and the body.\<close>

datatype HTTPRequest = POST string string string

text \<open>
  The libraries and the network, each call by its result: \<open>json.Marshal\<close>,
  \<open>http.NewRequest\<close> (by the address), \<open>client.Do\<close> followed by
  \<open>io.ReadAll\<close> of the response body, and \<open>json.Unmarshal\<close>.
\<close>

record network =
  json_Marshal :: "AIRequest \<Rightarrow> error + string"
  http_NewRequest :: "string \<Rightarrow> error option"
  client_Do :: "HTTPRequest \<Rightarrow> error + (error + string)"
  json_Unmarshal :: "string \<Rightarrow> error + AIResponse"

text \<open>
  \<open>GenerateAnalytics\<close> returns a string and an error. The second component of the
  model's result is the list of requests handed to \<open>client.Do\<close> so far.
  \<open>systemPrompt\<close> is what \<open>AIPromptDailyUpdate()\<close> returns.
\<close>

definition GenerateAnalytics ::
  "network \<Rightarrow> string \<Rightarrow> string \<Rightarrow> AIConfig \<Rightarrow> HTTPRequest list \<Rightarrow>
   (error + string) \<times> HTTPRequest list" where
  "GenerateAnalytics net systemPrompt dateStr config done =
     (if APIKey config = [] then (Inr (getLocalAnalytics dateStr), done)
      else
        (let request =
               \<lparr>Model = ModelName config,
                Messages = [(''system'', PromptText systemPrompt), (''user'', DateContext dateStr)],
                Temperature = 0.7,
                Tools = [''retrieval''],
                ToolChoice = ''auto''\<rparr>
         in case json_Marshal net request of
              Inl err \<Rightarrow> (Inl (MarshalError err), done)
            | Inr requestJSON \<Rightarrow>
                (case http_NewRequest net (APIBaseURL config) of
                   Some err \<Rightarrow> (Inl (NewRequestError err), done)
                 | None \<Rightarrow>
                     (let req = POST (APIBaseURL config) (''Bearer '' @ APIKey config) requestJSON
                      in case client_Do net req of
                           Inl err \<Rightarrow> (Inl (DoError err), done @ [req])
                         | Inr (Inl err) \<Rightarrow> (Inl (ReadError err), done @ [req])
                         | Inr (Inr body) \<Rightarrow>
                             (case json_Unmarshal net body of
                                Inl err \<Rightarrow> (Inl (UnmarshalError err), done @ [req])
                              | Inr aiResponse \<Rightarrow>
                                  (case ErrorMessage aiResponse of
                                     Some m \<Rightarrow> (Inl (APIError m), done @ [req])
                                   | None \<Rightarrow>
                                       (case Choices aiResponse of
                                          [] \<Rightarrow> (Inl EmptyResponse, done @ [req])
                                        | c # _ \<Rightarrow> (Inr c, done @ [req]))))))))"

section \<open>How the two entry points start\<close>

text \<open>
  \<open>main\<close> up to its loop. \<open>log.Fatal\<close> ends the process, \<open>log.Panic\<close> panics;
  otherwise the completion service is built and the loop begins. \<open>getenv\<close> is
  \<open>os.Getenv\<close> (for the \<open>_cmd\<close> entry point after \<open>godotenv.Load()\<close>, whose
  failure is only logged); \<open>newBotAPI\<close> is the error of \<open>tgbotapi.NewBotAPI\<close>,
  if any.
\<close>

datatype fatal = NoBotToken | NoAPIKey

datatype 'a startup = Fatal fatal | Panic error | Started 'a

text \<open>The service of the \<open>_cmd\<close> entry point, as its \<open>NewAIService(apiKey,
  modelName)\<close> builds it.\<close>

record AIService =
  apiKey :: string
  apiURL :: string
  modelName :: string

definition NewAIService_cmd :: "string \<Rightarrow> string \<Rightarrow> AIService" where
  "NewAIService_cmd key model =
     \<lparr>apiKey = key, apiURL = ''https://api.openai.com/v1/chat/completions'',
      modelName = model\<rparr>"

definition main_cmd :: "(string \<Rightarrow> string) \<Rightarrow> error option \<Rightarrow> AIService startup" where
  "main_cmd getenv newBotAPI =
     (let botToken = getenv ''TELEGRAM_BOT_TOKEN''
      in if botToken = [] then Fatal NoBotToken
         else
           (let key = getenv ''AI_API_KEY''
            in if key = [] then Fatal NoAPIKey
               else
                 (let model = (if getenv ''AI_MODEL_NAME'' = [] then ''gpt-4o''
                               else getenv ''AI_MODEL_NAME'')
                  in case newBotAPI of
                       Some err \<Rightarrow> Panic err
                     | None \<Rightarrow> Started (NewAIService_cmd key model))))"

definition main_txt :: "(string \<Rightarrow> string) \<Rightarrow> error option \<Rightarrow> AIConfig startup" where
  "main_txt getenv newBotAPI =
     (let botToken = getenv ''TELEGRAM_BOT_TOKEN''
      in if botToken = [] then Fatal NoBotToken
         else
           (case newBotAPI of
              Some err \<Rightarrow> Panic err
            | None \<Rightarrow> Started (NewAIService getenv)))"

section \<open>Which message is which command\<close>

text \<open>
  For the \<open>_cmd\<close> entry point a message is the command \<open>c\<close> when its text begins
  with a slash and the library reads \<open>c\<close> as its command; for the \<open>_txt\<close> entry
  point, when its text is the slash followed by \<open>c\<close>.
\<close>

definition commandIs_cmd :: "string \<Rightarrow> Message \<Rightarrow> bool" where
  "commandIs_cmd c message =
     (Text message \<noteq> [] \<and> hd (Text message) = CHR ''/'' \<and> Command message = c)"

definition commandIs_txt :: "string \<Rightarrow> Message \<Rightarrow> bool" where
  "commandIs_txt c message = (Text message = CHR ''/'' # c)"

definition commandWords :: "string list" where
  "commandWords = [''start'', ''subscribe'', ''unsubscribe'', ''analytics'']"

section \<open>Lemmas on the scheduler\<close>

lemma Second_val: "Second = 1000000000"
  by (simp add: Second_def)

lemma Hour_val: "Hour = 3600000000000"
  by (simp add: Hour_def Minute_def Second_def)

lemma Minute_val: "Minute = 60000000000"
  by (simp add: Minute_def Second_def)

lemma mod_qr: "0 \<le> r \<Longrightarrow> r < m \<Longrightarrow> (q * m + r) mod m = (r::int)"
  by (simp add: mod_pos_pos_trivial)

lemma div_qr: "0 \<le> r \<Longrightarrow> r < m \<Longrightarrow> (q * m + r) div m = (q::int)"
  by (simp add: div_pos_pos_trivial)

lemma instant_split: "now = unixSec now * Second + now mod Second"
  unfolding unixSec_def by (rule div_mult_mod_eq [symmetric])

lemma unixSec_whole: "unixSec (k * Second) = k"
  by (simp add: unixSec_def Second_val)

lemma Date_offset:
  assumes "offsetAt loc (day * 86400 + hour * 3600 + minute * 60) = off"
    and "offsetAt loc (day * 86400 + hour * 3600 + minute * 60 - off) = off"
  shows "Date loc day hour minute = (day * 86400 + hour * 3600 + minute * 60 - off) * Second"
proof -
  let ?u = "day * 86400 + hour * 3600 + minute * 60"
  obtain offset start en where l: "lookup loc ?u = (offset, start, en)"
    by (cases "lookup loc ?u") auto
  have o: "offset = off" using assms(1) l by (simp add: offsetAt_def)
  show ?thesis
  proof (cases "off = 0")
    case True
    then show ?thesis using l o by (simp add: Date_def)
  next
    case False
    then show ?thesis using l o assms(2) by (simp add: Date_def Let_def)
  qed
qed

lemma steadyD:
  assumes "steady loc now"
  shows "\<bar>offsetAt loc (unixSec now)\<bar> \<le> 86400"
    and "\<And>t. unixSec now - 172800 \<le> t \<Longrightarrow> t \<le> unixSec now + 172800 \<Longrightarrow>
           offsetAt loc t = offsetAt loc (unixSec now)"
  using assms unfolding steady_def by blast+

lemma day_start:
  "(x::int) div 86400 * 86400 = x - x mod 86400"
  using div_mult_mod_eq [of x 86400] by linarith

lemma todayRun_steady:
  assumes hm: "0 \<le> hour" "hour < 24" "0 \<le> minute" "minute < 60"
    and st: "steady loc now"
  shows "\<exists>T. todayRun loc hour minute now = T * Second \<and>
             unixSec now - 86400 < T \<and> T < unixSec now + 86400 \<and>
             (\<exists>d. T + offsetAt loc (unixSec now) = d * 86400 + (hour * 3600 + minute * 60))"
proof -
  define s where "s = unixSec now"
  define off where "off = offsetAt loc s"
  define r where "r = (s + off) mod 86400"
  define d where "d = (s + off) div 86400"
  define L where "L = d * 86400 + hour * 3600 + minute * 60"
  have r0: "0 \<le> r" and r1: "r < 86400" by (simp_all add: r_def)
  have "\<bar>offsetAt loc (unixSec now)\<bar> \<le> 86400" by (rule steadyD(1) [OF st])
  then have o0: "- 86400 \<le> off" and o1: "off \<le> 86400"
    unfolding off_def s_def by linarith+
  have win: "offsetAt loc t = off" if "s - 172800 \<le> t" "t \<le> s + 172800" for t
    unfolding off_def s_def using that steadyD(2) [OF st, of t] unfolding s_def by blast
  have "d * 86400 = s + off - r"
    unfolding d_def r_def by (rule day_start)
  then have L: "L = s + off - r + hour * 3600 + minute * 60"
    unfolding L_def by linarith
  have w1: "offsetAt loc L = off"
  proof (rule win)
    show "s - 172800 \<le> L" using L r1 o0 hm by linarith
    show "L \<le> s + 172800" using L r0 o1 hm by linarith
  qed
  have w2: "offsetAt loc (L - off) = off"
  proof (rule win)
    show "s - 172800 \<le> L - off" using L r1 hm by linarith
    show "L - off \<le> s + 172800" using L r0 hm by linarith
  qed
  have ld: "localDay loc now = d"
    unfolding localDay_def d_def s_def off_def ..
  have "Date loc d hour minute = (d * 86400 + hour * 3600 + minute * 60 - off) * Second"
    using w1 w2 unfolding L_def by (rule Date_offset)
  then have t: "todayRun loc hour minute now = (L - off) * Second"
    unfolding todayRun_def ld L_def .
  have b0: "s - 86400 < L - off" using L r1 hm by linarith
  have b1: "L - off < s + 86400" using L r0 hm by linarith
  have e: "L - off + off = d * 86400 + (hour * 3600 + minute * 60)"
    unfolding L_def by linarith
  have "todayRun loc hour minute now = (L - off) * Second \<and>
             s - 86400 < L - off \<and> L - off < s + 86400 \<and>
             (\<exists>d. L - off + off = d * 86400 + (hour * 3600 + minute * 60))"
    using t b0 b1 e by blast
  then show ?thesis
    unfolding s_def off_def by (rule exI)
qed

lemma nextRun_cases:
  "nextRun loc hour minute now =
     (if todayRun loc hour minute now < now then todayRun loc hour minute now + 24 * Hour
      else todayRun loc hour minute now)"
  by (simp add: nextRun_def After_def Let_def)

text \<open>
  Around a steady instant the next run is a whole second \<open>R\<close>, at most a day from the
  second of the reading, and \<open>R\<close> moved by the offset is a whole number of days plus
  the hour and the minute.
\<close>

lemma nextRun_steady:
  assumes hm: "0 \<le> hour" "hour < 24" "0 \<le> minute" "minute < 60"
    and st: "steady loc now"
  shows "\<exists>R. nextRun loc hour minute now = R * Second \<and>
             unixSec now \<le> R \<and> R \<le> unixSec now + 86400 \<and>
             now \<le> R * Second \<and> R * Second - now < 24 * Hour \<and>
             (todayRun loc hour minute now < now \<longrightarrow> now < R * Second) \<and>
             (\<exists>d. R + offsetAt loc (unixSec now) = d * 86400 + (hour * 3600 + minute * 60))"
proof -
  obtain T d where t: "todayRun loc hour minute now = T * Second"
    and t0: "unixSec now - 86400 < T" and t1: "T < unixSec now + 86400"
    and td: "T + offsetAt loc (unixSec now) = d * 86400 + (hour * 3600 + minute * 60)"
    using todayRun_steady [OF assms] by blast
  define n where "n = now mod Second"
  define s where "s = unixSec now"
  have sp: "now = s * 1000000000 + n"
    using instant_split [of now] by (simp add: Second_val n_def s_def)
  have n0: "0 \<le> n" and n1: "n < 1000000000"
    by (simp_all add: n_def Second_val)
  note t0 = t0 [folded s_def] and t1 = t1 [folded s_def]
  show ?thesis
  proof (cases "T * Second < now")
    case True
    then have lt: "T * 1000000000 < now" by (simp add: Second_val)
    have r: "nextRun loc hour minute now = (T + 86400) * Second"
      using True t by (simp add: nextRun_cases Hour_val Second_val algebra_simps)
    have "T \<le> s" using lt sp n1 by linarith
    then have a: "unixSec now \<le> T + 86400" "T + 86400 \<le> unixSec now + 86400"
      unfolding s_def [symmetric] using t0 by linarith+
    have x: "(T + 86400) * Second = T * 1000000000 + 86400000000000"
      by (simp add: Second_val algebra_simps)
    have b: "now < (T + 86400) * Second"
      unfolding x using sp n1 t0 by linarith
    have c: "(T + 86400) * Second - now < 24 * Hour"
      unfolding x Hour_val using lt by linarith
    have e: "T + 86400 + offsetAt loc (unixSec now) = (d + 1) * 86400 + (hour * 3600 + minute * 60)"
      using td by (simp add: algebra_simps)
    have "nextRun loc hour minute now = (T + 86400) * Second \<and>
             unixSec now \<le> T + 86400 \<and> T + 86400 \<le> unixSec now + 86400 \<and>
             now \<le> (T + 86400) * Second \<and> (T + 86400) * Second - now < 24 * Hour \<and>
             (todayRun loc hour minute now < now \<longrightarrow> now < (T + 86400) * Second) \<and>
             (\<exists>d. T + 86400 + offsetAt loc (unixSec now) =
                d * 86400 + (hour * 3600 + minute * 60))"
      using r a b c e by (intro conjI impI exI [of _ "d + 1"]) simp_all
    then show ?thesis by (rule exI)
  next
    case False
    then have ge: "now \<le> T * 1000000000" by (simp add: Second_val)
    have r: "nextRun loc hour minute now = T * Second"
      using False t by (simp add: nextRun_cases)
    have a: "unixSec now \<le> T" unfolding s_def [symmetric] using ge sp n0 by linarith
    have a': "T \<le> unixSec now + 86400" unfolding s_def [symmetric] using t1 by linarith
    have b: "now \<le> T * Second" using ge by (simp add: Second_val)
    have c: "T * Second - now < 24 * Hour"
      unfolding Second_val Hour_val using sp n0 t1 by linarith
    have "nextRun loc hour minute now = T * Second \<and>
             unixSec now \<le> T \<and> T \<le> unixSec now + 86400 \<and>
             now \<le> T * Second \<and> T * Second - now < 24 * Hour \<and>
             (todayRun loc hour minute now < now \<longrightarrow> now < T * Second) \<and>
             (\<exists>d. T + offsetAt loc (unixSec now) =
                d * 86400 + (hour * 3600 + minute * 60))"
      using r a a' b c td False t by (intro conjI impI exI [of _ d]) simp_all
    then show ?thesis by (rule exI)
  qed
qed

lemma clock_of_sum:
  assumes "0 \<le> hour" "hour < 24" "0 \<le> minute" "minute < 60"
    and e: "x = d * 86400 + (hour * 3600 + minute * 60)"
  shows "(x mod 86400) div 3600 = hour \<and> (x mod 3600) div 60 = minute \<and> x mod 60 = (0::int)"
proof -
  let ?r = "hour * 3600 + minute * 60"
  have r0: "0 \<le> ?r" and r1: "?r < 86400" using assms(1-4) by linarith+
  have m0: "0 \<le> minute * 60" and m1: "minute * 60 < 3600" using assms(1-4) by linarith+
  have "x mod 86400 = ?r"
    unfolding e using mod_qr [OF r0 r1, of d] by simp
  moreover have "?r div 3600 = hour"
    using div_qr [OF m0 m1, of hour] by simp
  ultimately have h: "(x mod 86400) div 3600 = hour" by simp
  have "x = (d * 24 + hour) * 3600 + minute * 60"
    unfolding e by (simp add: algebra_simps)
  then have "x mod 3600 = minute * 60"
    using mod_qr [OF m0 m1, of "d * 24 + hour"] by simp
  then have m: "(x mod 3600) div 60 = minute" by simp
  have "x = ((d * 24 + hour) * 60 + minute) * 60"
    unfolding e by (simp add: algebra_simps)
  then have s: "x mod 60 = 0" by simp
  from h m s show ?thesis by simp
qed

text \<open>
  Claim C1, as amended. For a schedule with the hour in 0..23 and the minute in 0..59,
  and for every clock reading \<open>now\<close> around which the location is steady (its offset
  does not change within two days of \<open>now\<close>): the next fire instant is never before
  \<open>now\<close>, and strictly after it unless \<open>now\<close> is exactly today's target instant;
  the wait is less than 24 hours; the next fire instant reads hour:minute:00 and no
  nanoseconds on the location's clock; and 24 hours are added to today's target exactly
  when \<open>now\<close> is strictly after it. The fallback zone is steady around every instant,
  and Europe/Moscow around every instant from 28 October 2014 on.
\<close>

theorem nextRun_future:
  assumes "0 \<le> hour" "hour < 24" "0 \<le> minute" "minute < 60"
    and "steady loc now"
  shows "now \<le> nextRun loc hour minute now \<and>
    (now \<noteq> todayRun loc hour minute now \<longrightarrow> now < nextRun loc hour minute now) \<and>
    waitDuration loc hour minute now < 24 * Hour \<and>
    clockHour loc (nextRun loc hour minute now) = hour \<and>
    clockMinute loc (nextRun loc hour minute now) = minute \<and>
    clockSecond loc (nextRun loc hour minute now) = 0 \<and>
    clockNanosecond loc (nextRun loc hour minute now) = 0 \<and>
    (nextRun loc hour minute now =
       (if todayRun loc hour minute now < now then todayRun loc hour minute now + 24 * Hour
        else todayRun loc hour minute now))"
proof -
  obtain R d where r: "nextRun loc hour minute now = R * Second"
    and r0: "unixSec now \<le> R" and r1: "R \<le> unixSec now + 86400"
    and ge: "now \<le> R * Second" and lt: "R * Second - now < 24 * Hour"
    and sl: "todayRun loc hour minute now < now \<longrightarrow> now < R * Second"
    and rd: "R + offsetAt loc (unixSec now) = d * 86400 + (hour * 3600 + minute * 60)"
    using nextRun_steady [OF assms] by blast
  have a: "now \<le> nextRun loc hour minute now" using r ge by simp
  have b: "now \<noteq> todayRun loc hour minute now \<longrightarrow> now < nextRun loc hour minute now"
    using a sl r by (auto simp add: nextRun_cases)
  have c: "waitDuration loc hour minute now < 24 * Hour"
    using r lt by (simp add: waitDuration_def)
  have u: "unixSec (nextRun loc hour minute now) = R"
    unfolding r by (rule unixSec_whole)
  have "offsetAt loc R = offsetAt loc (unixSec now)"
    by (rule steadyD(2) [OF assms(5)]) (use r0 r1 in linarith)+
  then have ls: "localSec loc (nextRun loc hour minute now) =
      d * 86400 + (hour * 3600 + minute * 60)"
    using rd by (simp add: localSec_def u)
  have n: "clockNanosecond loc (nextRun loc hour minute now) = 0"
    unfolding r by (simp add: clockNanosecond_def)
  from clock_of_sum [OF assms(1-4) ls] a b c n show ?thesis
    by (simp add: clockHour_def clockMinute_def clockSecond_def nextRun_cases)
qed

section \<open>The loop of the scheduler\<close>

lemma offsetAt_FixedZone: "offsetAt (FixedZone off) t = off"
  by (simp add: offsetAt_def lookup_def FixedZone_def)

lemma steady_FixedZone: "\<bar>off\<bar> \<le> 86400 \<Longrightarrow> steady (FixedZone off) now"
  by (simp add: steady_def offsetAt_FixedZone)

lemma steady_fallback: "steady (scheduleLocation None) now"
  by (simp add: scheduleLocation_def steady_FixedZone)

lemma Moscow_since_2014:
  "1414274400 \<le> t \<Longrightarrow> offsetAt Europe_Moscow t = 10800"
  by (simp add: offsetAt_def lookup_def Europe_Moscow_def)

lemma steady_Moscow:
  assumes "1414447200 \<le> unixSec now"
  shows "steady Europe_Moscow now"
proof -
  have "offsetAt Europe_Moscow t = 10800" if "unixSec now - 172800 \<le> t" for t
    by (rule Moscow_since_2014) (use that assms in linarith)
  then show ?thesis
    by (simp add: steady_def)
qed

lemma instant_parts:
  obtains s n where "now = s * 1000000000 + n" "0 \<le> n" "n < 1000000000" "unixSec now = s"
proof
  show "now = unixSec now * 1000000000 + now mod 1000000000"
    using instant_split [of now] by (simp add: Second_val)
  show "0 \<le> now mod 1000000000" "now mod 1000000000 < 1000000000" by simp_all
  show "unixSec now = unixSec now" ..
qed

lemma localDay_whole:
  assumes "0 \<le> hour" "hour < 24" "0 \<le> minute" "minute < 60"
    and "R + offsetAt loc R = d * 86400 + (hour * 3600 + minute * 60)"
  shows "localDay loc (R * Second) = d"
proof -
  have r0: "0 \<le> hour * 3600 + minute * 60" and r1: "hour * 3600 + minute * 60 < 86400"
    using assms(1-4) by linarith+
  show ?thesis
    using div_qr [OF r0 r1, of d] assms(5) by (simp add: localDay_def unixSec_whole)
qed

lemma nextRun_resumed:
  assumes hm: "0 \<le> hour" "hour < 24" "0 \<le> minute" "minute < 60"
    and s0: "steady loc n0" and s1: "steady loc n1"
    and lo: "nextRun loc hour minute n0 < n1"
    and hi: "n1 < nextRun loc hour minute n0 + 24 * Hour"
  shows "nextRun loc hour minute n1 = nextRun loc hour minute n0 + 24 * Hour \<and>
         0 < waitDuration loc hour minute n1 \<and>
         localDay loc (nextRun loc hour minute n1) =
           localDay loc (nextRun loc hour minute n0) + 1"
proof -
  obtain R0 d0 where r0: "nextRun loc hour minute n0 = R0 * Second"
    and a0: "unixSec n0 \<le> R0" and b0: "R0 \<le> unixSec n0 + 86400"
    and e0: "R0 + offsetAt loc (unixSec n0) = d0 * 86400 + (hour * 3600 + minute * 60)"
    using nextRun_steady [OF hm s0] by blast
  obtain R1 d1 where r1: "nextRun loc hour minute n1 = R1 * Second"
    and a1: "unixSec n1 \<le> R1" and b1: "R1 \<le> unixSec n1 + 86400"
    and ge1: "n1 \<le> R1 * Second" and lt1: "R1 * Second - n1 < 24 * Hour"
    and e1: "R1 + offsetAt loc (unixSec n1) = d1 * 86400 + (hour * 3600 + minute * 60)"
    using nextRun_steady [OF hm s1] by blast
  obtain u1 m1 where p1: "n1 = u1 * 1000000000 + m1" "0 \<le> m1" "m1 < 1000000000"
    and q1: "unixSec n1 = u1"
    by (rule instant_parts)
  have lo': "R0 * 1000000000 < n1" using lo r0 by (simp add: Second_val)
  have hi': "n1 < R0 * 1000000000 + 86400000000000"
    using hi r0 by (simp add: Second_val Hour_val)
  have w0: "R0 \<le> u1" using lo' p1 by linarith
  have w1: "u1 < R0 + 86400" using hi' p1 by linarith
  have off: "offsetAt loc (unixSec n1) = offsetAt loc (unixSec n0)"
    by (rule steadyD(2) [OF s0]) (use w0 w1 a0 b0 q1 in linarith)+
  have o0: "offsetAt loc R0 = offsetAt loc (unixSec n0)"
    by (rule steadyD(2) [OF s0]) (use a0 b0 in linarith)+
  have o1: "offsetAt loc R1 = offsetAt loc (unixSec n0)"
    unfolding off [symmetric]
    by (rule steadyD(2) [OF s1]) (use a1 b1 in linarith)+
  have ge1': "n1 \<le> R1 * 1000000000" using ge1 by (simp add: Second_val)
  have lt1': "R1 * 1000000000 - n1 < 86400000000000"
    using lt1 by (simp add: Second_val Hour_val)
  define j where "j = d1 - d0"
  have "R1 - R0 = (d1 - d0) * 86400"
    using e0 e1 off by (simp add: algebra_simps)
  then have j: "R1 = R0 + j * 86400" unfolding j_def by linarith
  have "R0 < R1" using lo' ge1' by linarith
  moreover have "R1 < R0 + 172800" using lt1' hi' by linarith
  ultimately have "j = 1" using j by linarith
  then have d: "d1 = d0 + 1" and R: "R1 = R0 + 86400" using j j_def by linarith+
  have x: "nextRun loc hour minute n1 = nextRun loc hour minute n0 + 24 * Hour"
    unfolding r0 r1 R by (simp add: Hour_val Second_val algebra_simps)
  have y: "0 < waitDuration loc hour minute n1"
    unfolding waitDuration_def x using hi by linarith
  have "localDay loc (R0 * Second) = d0"
    by (rule localDay_whole [OF hm]) (use e0 o0 in simp)
  moreover have "localDay loc (R1 * Second) = d1"
    by (rule localDay_whole [OF hm]) (use e1 o1 off in simp)
  ultimately have z: "localDay loc (nextRun loc hour minute n1) =
           localDay loc (nextRun loc hour minute n0) + 1"
    unfolding r0 r1 using d by simp
  from x y z show ?thesis by simp
qed

lemma scheduleDaily_map:
  "scheduleDaily loc hour minute rs =
     map (\<lambda>(now, fired). \<lparr>target = nextRun loc hour minute now,
            waited = waitDuration loc hour minute now, sentAt = fired\<rparr>) rs"
  by (induction rs) auto

lemma scheduleDaily_nth:
  "k < length rs \<Longrightarrow>
     target (scheduleDaily loc hour minute rs ! k) = nextRun loc hour minute (fst (rs ! k)) \<and>
     waited (scheduleDaily loc hour minute rs ! k) = waitDuration loc hour minute (fst (rs ! k))"
  by (simp add: scheduleDaily_map split_beta)

lemma steadyRun_nth:
  "steadyRun loc rs \<Longrightarrow> k < length rs \<Longrightarrow> steady loc (fst (rs ! k))"
proof (induction rs arbitrary: k)
  case Nil
  then show ?case by simp
next
  case (Cons r rs)
  then show ?case by (cases r; cases k) auto
qed

lemma resumesWithinDay_nth:
  "resumesWithinDay loc hour minute rs \<Longrightarrow> Suc k < length rs \<Longrightarrow>
     nextRun loc hour minute (fst (rs ! k)) < fst (rs ! Suc k) \<and>
     fst (rs ! Suc k) < nextRun loc hour minute (fst (rs ! k)) + 24 * Hour"
proof (induction loc hour minute rs arbitrary: k rule: resumesWithinDay.induct)
  case (1 loc hour minute)
  then show ?case by simp
next
  case (2 loc hour minute r)
  then show ?case by simp
next
  case (3 loc hour minute now fired now' fired' rs)
  show ?case
  proof (cases k)
    case 0
    with 3 show ?thesis by simp
  next
    case (Suc k')
    with 3 show ?thesis by simp
  qed
qed

text \<open>
  Claim C2, as amended. For a schedule with the hour in 0..23 and the minute in 0..59
  and a run of the loop whose clock readings are all at instants around which the
  location is steady: if every pass after an emission reads the clock strictly after the
  target that has just fired and less than 24 hours after it, then the recomputed target
  is the fired target plus 24 hours, which is hour:minute:00 of the next local day, and
  the recomputed wait is positive. So consecutive emissions are for consecutive days: no
  day has two and no day has none.
\<close>

theorem scheduleDaily_next_day:
  assumes "0 \<le> hour" "hour < 24" "0 \<le> minute" "minute < 60"
    and "steadyRun loc rs"
    and "resumesWithinDay loc hour minute rs"
    and "Suc k < length rs"
  shows "target (scheduleDaily loc hour minute rs ! Suc k) =
           target (scheduleDaily loc hour minute rs ! k) + 24 * Hour \<and>
         0 < waited (scheduleDaily loc hour minute rs ! Suc k) \<and>
         localDay loc (target (scheduleDaily loc hour minute rs ! Suc k)) =
           localDay loc (target (scheduleDaily loc hour minute rs ! k)) + 1"
proof -
  let ?n0 = "fst (rs ! k)" and ?n1 = "fst (rs ! Suc k)"
  have k: "k < length rs" using assms(7) by simp
  have r: "nextRun loc hour minute ?n0 < ?n1 \<and> ?n1 < nextRun loc hour minute ?n0 + 24 * Hour"
    using resumesWithinDay_nth [OF assms(6,7)] .
  have s0: "steady loc ?n0" using steadyRun_nth [OF assms(5) k] .
  have s1: "steady loc ?n1" using steadyRun_nth [OF assms(5,7)] .
  have e: "nextRun loc hour minute ?n1 = nextRun loc hour minute ?n0 + 24 * Hour \<and>
         0 < waitDuration loc hour minute ?n1 \<and>
         localDay loc (nextRun loc hour minute ?n1) =
           localDay loc (nextRun loc hour minute ?n0) + 1"
    using nextRun_resumed [OF assms(1-4) s0 s1] r by blast
  have t0: "target (scheduleDaily loc hour minute rs ! k) = nextRun loc hour minute ?n0"
    using scheduleDaily_nth [OF k] by blast
  have t1: "target (scheduleDaily loc hour minute rs ! Suc k) = nextRun loc hour minute ?n1"
    using scheduleDaily_nth [OF assms(7)] by blast
  have w1: "waited (scheduleDaily loc hour minute rs ! Suc k) = waitDuration loc hour minute ?n1"
    using scheduleDaily_nth [OF assms(7)] by blast
  show ?thesis
    unfolding t0 t1 w1 using e .
qed

theorem nextRun_future_witness:
  "0 \<le> DAILY_HOUR \<and> DAILY_HOUR < 24 \<and> 0 \<le> DAILY_MINUTE \<and> DAILY_MINUTE < 60 \<and>
   steady (scheduleLocation (Some Europe_Moscow)) 1704088800000000000 \<and>
   (1704088800000000000::int) <
     nextRun (scheduleLocation (Some Europe_Moscow)) DAILY_HOUR DAILY_MINUTE 1704088800000000000 \<and>
   waitDuration (scheduleLocation (Some Europe_Moscow)) DAILY_HOUR DAILY_MINUTE
     1704088800000000000 = Hour \<and>
   clockHour (scheduleLocation (Some Europe_Moscow))
     (nextRun (scheduleLocation (Some Europe_Moscow)) DAILY_HOUR DAILY_MINUTE
        1704088800000000000) = DAILY_HOUR \<and>
   clockMinute (scheduleLocation (Some Europe_Moscow))
     (nextRun (scheduleLocation (Some Europe_Moscow)) DAILY_HOUR DAILY_MINUTE
        1704088800000000000) = DAILY_MINUTE"
proof -
  have s: "steady (scheduleLocation (Some Europe_Moscow)) 1704088800000000000"
    unfolding scheduleLocation_def option.case
    by (rule steady_Moscow) code_simp
  have h: "0 \<le> DAILY_HOUR" "DAILY_HOUR < 24" "0 \<le> DAILY_MINUTE" "DAILY_MINUTE < 60"
    by (simp_all add: DAILY_HOUR_def DAILY_MINUTE_def)
  have v: "(1704088800000000000::int) <
       nextRun (scheduleLocation (Some Europe_Moscow)) DAILY_HOUR DAILY_MINUTE
         1704088800000000000 \<and>
     waitDuration (scheduleLocation (Some Europe_Moscow)) DAILY_HOUR DAILY_MINUTE
       1704088800000000000 = Hour"
    by code_simp
  show ?thesis
    using nextRun_future [OF h s] s h v by blast
qed

text \<open>
  With Europe/Moscow loaded and the schedule 10:00. At 10:00:00 sharp on 1 January 2024
  (07:00:00 UTC) the next fire instant is the reading itself: it is not strictly in the
  future, and no 24 hours are added although the reading is at the target. At 11:00 on
  25 October 2014, the day before the clocks went back an hour, the next fire instant is
  24 hours after that day's 10:00 and reads 09:00 on the zone's clock. With the schedule
  23:59, at 00:00 on 26 October 2014 the wait is 24 hours and 59 minutes.
\<close>

theorem nextRun_at_target_counterexample:
  "todayRun (scheduleLocation (Some Europe_Moscow)) DAILY_HOUR DAILY_MINUTE 1704092400000000000
     \<le> 1704092400000000000 \<and>
   \<not> (1704092400000000000 <
        nextRun (scheduleLocation (Some Europe_Moscow)) DAILY_HOUR DAILY_MINUTE
          1704092400000000000) \<and>
   nextRun (scheduleLocation (Some Europe_Moscow)) DAILY_HOUR DAILY_MINUTE 1704092400000000000 \<noteq>
     todayRun (scheduleLocation (Some Europe_Moscow)) DAILY_HOUR DAILY_MINUTE
       1704092400000000000 + 24 * Hour \<and>
   nextRun (scheduleLocation (Some Europe_Moscow)) DAILY_HOUR DAILY_MINUTE 1414220400000000000 =
     1414303200000000000 \<and>
   clockHour (scheduleLocation (Some Europe_Moscow)) 1414220400000000000 = 11 \<and>
   clockHour (scheduleLocation (Some Europe_Moscow)) 1414303200000000000 = 9 \<and>
   waitDuration (scheduleLocation (Some Europe_Moscow)) 23 59 1414267200000000000 =
     24 * Hour + 59 * Minute"
  by code_simp

theorem scheduleDaily_next_day_witness:
  "0 \<le> DAILY_HOUR \<and> DAILY_HOUR < 24 \<and> 0 \<le> DAILY_MINUTE \<and> DAILY_MINUTE < 60 \<and>
   steadyRun (scheduleLocation (Some Europe_Moscow))
      [(1704088800000000000, 1704092400000000007),
       (1704092400000000009, 1704178800000000003)] \<and>
   resumesWithinDay (scheduleLocation (Some Europe_Moscow)) DAILY_HOUR DAILY_MINUTE
      [(1704088800000000000, 1704092400000000007),
       (1704092400000000009, 1704178800000000003)] \<and>
   map target (scheduleDaily (scheduleLocation (Some Europe_Moscow)) DAILY_HOUR DAILY_MINUTE
      [(1704088800000000000, 1704092400000000007),
       (1704092400000000009, 1704178800000000003)]) =
     [1704092400000000000, 1704178800000000000] \<and>
   map waited (scheduleDaily (scheduleLocation (Some Europe_Moscow)) DAILY_HOUR DAILY_MINUTE
      [(1704088800000000000, 1704092400000000007),
       (1704092400000000009, 1704178800000000003)]) =
     [3600000000000, 86399999999991]"
proof -
  have s1: "steady (scheduleLocation (Some Europe_Moscow)) 1704088800000000000"
    unfolding scheduleLocation_def option.case
    by (rule steady_Moscow) code_simp
  have s2: "steady (scheduleLocation (Some Europe_Moscow)) 1704092400000000009"
    unfolding scheduleLocation_def option.case
    by (rule steady_Moscow) code_simp
  have s: "steadyRun (scheduleLocation (Some Europe_Moscow))
      [(1704088800000000000, 1704092400000000007),
       (1704092400000000009, 1704178800000000003)]"
    using s1 s2 by simp
  have h: "0 \<le> DAILY_HOUR" "DAILY_HOUR < 24" "0 \<le> DAILY_MINUTE" "DAILY_MINUTE < 60"
    by (simp_all add: DAILY_HOUR_def DAILY_MINUTE_def)
  have r: "resumesWithinDay (scheduleLocation (Some Europe_Moscow)) DAILY_HOUR DAILY_MINUTE
      [(1704088800000000000, 1704092400000000007),
       (1704092400000000009, 1704178800000000003)]"
    by code_simp
  have v: "map target (scheduleDaily (scheduleLocation (Some Europe_Moscow)) DAILY_HOUR
        DAILY_MINUTE
        [(1704088800000000000, 1704092400000000007),
         (1704092400000000009, 1704178800000000003)]) =
       [1704092400000000000, 1704178800000000000] \<and>
     map waited (scheduleDaily (scheduleLocation (Some Europe_Moscow)) DAILY_HOUR DAILY_MINUTE
        [(1704088800000000000, 1704092400000000007),
         (1704092400000000009, 1704178800000000003)]) =
       [3600000000000, 86399999999991]"
    by code_simp
  have l: "Suc 0 < length [(1704088800000000000::int, 1704092400000000007::int),
       (1704092400000000009, 1704178800000000003)]"
    by simp
  show ?thesis
    using scheduleDaily_next_day [OF h s r l] s r h v by blast
qed

text \<open>
  With Europe/Moscow loaded and the schedule 10:00. When the timer fires on the target
  instant and the next pass reads that same instant from the clock, the pass takes the
  same target again with a wait of zero: a second emission for the same day. And after
  the emission of 26 October 2014, which came at 09:00 on the zone's clock, the next
  pass, some nanoseconds later, takes 10:00 of the same day as its target: two emissions
  for 26 October, an hour apart.
\<close>

theorem scheduleDaily_same_day_counterexample:
  "clockAdvances (scheduleLocation (Some Europe_Moscow)) DAILY_HOUR DAILY_MINUTE
      [(1704088800000000000, 1704092400000000000),
       (1704092400000000000, 1704092400000000000)] \<and>
   map target (scheduleDaily (scheduleLocation (Some Europe_Moscow)) DAILY_HOUR DAILY_MINUTE
      [(1704088800000000000, 1704092400000000000),
       (1704092400000000000, 1704092400000000000)]) =
     [1704092400000000000, 1704092400000000000] \<and>
   map waited (scheduleDaily (scheduleLocation (Some Europe_Moscow)) DAILY_HOUR DAILY_MINUTE
      [(1704088800000000000, 1704092400000000000),
       (1704092400000000000, 1704092400000000000)]) =
     [3600000000000, 0] \<and>
   clockAdvances (scheduleLocation (Some Europe_Moscow)) DAILY_HOUR DAILY_MINUTE
      [(1414220400000000000, 1414303200000000001),
       (1414303200000000002, 1414306800000000001)] \<and>
   resumesWithinDay (scheduleLocation (Some Europe_Moscow)) DAILY_HOUR DAILY_MINUTE
      [(1414220400000000000, 1414303200000000001),
       (1414303200000000002, 1414306800000000001)] \<and>
   map target (scheduleDaily (scheduleLocation (Some Europe_Moscow)) DAILY_HOUR DAILY_MINUTE
      [(1414220400000000000, 1414303200000000001),
       (1414303200000000002, 1414306800000000001)]) =
     [1414303200000000000, 1414306800000000000] \<and>
   localDay (scheduleLocation (Some Europe_Moscow)) 1414303200000000000 =
     localDay (scheduleLocation (Some Europe_Moscow)) 1414306800000000000"
  by code_simp

section \<open>The analytics command\<close>

lemma analyticsCommand_failure:
  assumes "generateResult env (generated w) = Inl err"
  shows "analyticsCommand env chatID w =
     w\<lparr>sent := sent w @ [NewMessage chatID GeneratingText, NewMessage chatID GenerationFailedText],
       generated := Suc (generated w),
       logged := logged w @ [LogGenerateError err]\<rparr>"
  using assms
  by (simp add: analyticsCommand_def bot_Send_def aiService_GenerateAnalytics_def log_Printf_def)

lemma analyticsCommand_success:
  assumes "generateResult env (generated w) = Inr analytics"
  shows "analyticsCommand env chatID w =
     w\<lparr>sent := sent w @ [NewMessage chatID GeneratingText,
              EditMessageTextConfig chatID
                (fst (sendResult env (length (sent w)) (NewMessage chatID GeneratingText)))
                analytics ''Markdown''],
       generated := Suc (generated w)\<rparr>"
  using assms
  by (simp add: analyticsCommand_def bot_Send_def aiService_GenerateAnalytics_def
      NewEditMessageText_def)

text \<open>
  Claim C3, as amended. When the administrator sends the analytics command and the
  completion collaborator fails, the handler of either entry point sends exactly two
  things, both new messages to the administrator's chat: the placeholder, then the fixed
  apology. The placeholder is not edited. The collaborator is called once (no retry),
  the failure is logged, the subscriber map is unchanged, and the handler returns: no
  statement on this path can panic, and the model has no other outcome.
\<close>

theorem analytics_failure:
  assumes "FromID message = ADMIN_USER_ID"
    and "generateResult env (generated w) = Inl err"
  shows "(commandIs_cmd ''analytics'' message \<longrightarrow>
            handleMessage_cmd env message subscribedChats w =
              (subscribedChats,
               w\<lparr>sent := sent w @ [NewMessage (ChatID message) GeneratingText,
                                     NewMessage (ChatID message) GenerationFailedText],
                 generated := Suc (generated w),
                 logged := logged w @ [LogGenerateError err]\<rparr>)) \<and>
         (commandIs_txt ''analytics'' message \<longrightarrow>
            handleMessage_txt env message subscribedChats w =
              (subscribedChats,
               w\<lparr>sent := sent w @ [NewMessage (ChatID message) GeneratingText,
                                     NewMessage (ChatID message) GenerationFailedText],
                 generated := Suc (generated w),
                 logged := logged w @ [LogGenerateError err]\<rparr>))"
  using assms
  by (simp add: commandIs_cmd_def commandIs_txt_def handleMessage_cmd_def handleMessage_txt_def Let_def
      analyticsCommand_failure)

theorem analytics_failure_witness:
  "handleMessage_cmd
     \<lparr>generateResult = (\<lambda>k. Inl (Failure ''timeout'')), sendResult = (\<lambda>k c. (41, None))\<rparr>
     \<lparr>ChatID = 449066543, FromID = 449066543, Text = ''/analytics'', Command = ''analytics''\<rparr>
     Map.empty
     \<lparr>sent = [], generated = 0, logged = []\<rparr> =
   (Map.empty,
    \<lparr>sent = [MessageConfig 449066543 GeneratingText [],
             MessageConfig 449066543 GenerationFailedText []],
     generated = 1,
     logged = [LogGenerateError (Failure ''timeout'')]\<rparr>) \<and>
   handleMessage_txt
     \<lparr>generateResult = (\<lambda>k. Inl (Failure ''timeout'')), sendResult = (\<lambda>k c. (41, None))\<rparr>
     \<lparr>ChatID = 449066543, FromID = 449066543, Text = ''/analytics'', Command = ''analytics''\<rparr>
     Map.empty
     \<lparr>sent = [], generated = 0, logged = []\<rparr> =
   (Map.empty,
    \<lparr>sent = [MessageConfig 449066543 GeneratingText [],
             MessageConfig 449066543 GenerationFailedText []],
     generated = 1,
     logged = [LogGenerateError (Failure ''timeout'')]\<rparr>)"
  using analytics_failure
    [of "\<lparr>ChatID = 449066543, FromID = 449066543, Text = ''/analytics'',
          Command = ''analytics''\<rparr>"
        "\<lparr>generateResult = (\<lambda>k. Inl (Failure ''timeout'')), sendResult = (\<lambda>k c. (41, None))\<rparr>"
        "\<lparr>sent = [], generated = 0, logged = []\<rparr>" "Failure ''timeout''" Map.empty]
  by (simp add: ADMIN_USER_ID_def commandIs_cmd_def commandIs_txt_def NewMessage_def)

text \<open>
  In neither entry point does the failing analytics command hand an edit to
  \<open>bot.Send\<close>.
\<close>

theorem analytics_failure_no_edit_counterexample:
  "\<not> (\<exists>i t pm. EditMessageTextConfig 449066543 i t pm \<in> set (sent (snd
      (handleMessage_cmd
         \<lparr>generateResult = (\<lambda>k. Inl (Failure ''timeout'')), sendResult = (\<lambda>k c. (41, None))\<rparr>
         \<lparr>ChatID = 449066543, FromID = 449066543, Text = ''/analytics'',
          Command = ''analytics''\<rparr>
         Map.empty
         \<lparr>sent = [], generated = 0, logged = []\<rparr>)))) \<and>
   \<not> (\<exists>i t pm. EditMessageTextConfig 449066543 i t pm \<in> set (sent (snd
      (handleMessage_txt
         \<lparr>generateResult = (\<lambda>k. Inl (Failure ''timeout'')), sendResult = (\<lambda>k c. (41, None))\<rparr>
         \<lparr>ChatID = 449066543, FromID = 449066543, Text = ''/analytics'',
          Command = ''analytics''\<rparr>
         Map.empty
         \<lparr>sent = [], generated = 0, logged = []\<rparr>))))"
  by (simp add: handleMessage_cmd_def handleMessage_txt_def ADMIN_USER_ID_def Let_def
      analyticsCommand_def bot_Send_def aiService_GenerateAnalytics_def log_Printf_def
      NewMessage_def)

section \<open>The daily broadcast\<close>

lemma sendToAll_sent:
  "sent (sendToAll env analytics ks w) =
     sent w @ map (\<lambda>chatID. MessageConfig chatID analytics ''Markdown'') ks"
  by (induction ks arbitrary: w)
     (auto simp add: bot_Send_def log_Printf_def NewMessage_def split: option.splits)

lemma sendToAll_generated:
  "generated (sendToAll env analytics ks w) = generated w"
  by (induction ks arbitrary: w)
     (auto simp add: bot_Send_def log_Printf_def split: option.splits)

text \<open>
  Claim C4. On a signal of the daily ticker, when the completion collaborator returns a
  text, it has been called exactly once, and that one text is handed to \<open>bot.Send\<close>
  once for every key of the subscriber map, in the order of the \<open>range\<close>, whatever
  each send returns: a failed send stops nothing. The subscriber map is unchanged. Both
  entry points do the same.
\<close>

theorem broadcast_reaches_all:
  assumes "generateResult env (generated w) = Inr analytics"
    and "rangeOrder subscribedChats ks"
  shows "fst (select_cmd env (DailyTicker ks) (subscribedChats, w)) = subscribedChats \<and>
         select_txt env (DailyTicker ks) (subscribedChats, w) =
           select_cmd env (DailyTicker ks) (subscribedChats, w) \<and>
         generated (snd (select_cmd env (DailyTicker ks) (subscribedChats, w))) =
           Suc (generated w) \<and>
         sent (snd (select_cmd env (DailyTicker ks) (subscribedChats, w))) =
           sent w @ map (\<lambda>chatID. MessageConfig chatID analytics ''Markdown'') ks \<and>
         distinct ks \<and> set ks = dom subscribedChats"
  using assms
  by (simp add: sendDailyAnalytics_def aiService_GenerateAnalytics_def log_Printf_def
      sendToAll_sent sendToAll_generated rangeOrder_def)

text \<open>
  Two subscribers; the send to the first one visited fails. The second still gets the
  text, the failure is logged, and both stay subscribed.
\<close>

theorem broadcast_reaches_all_witness:
  "rangeOrder [5 \<mapsto> True, 9 \<mapsto> True] [9, 5] \<and>
   select_cmd
     \<lparr>generateResult = (\<lambda>k. Inr (Content ''TEXT'')),
      sendResult = (\<lambda>k c. if k = 0 then (0, Some (Failure ''blocked'')) else (7, None))\<rparr>
     (DailyTicker [9, 5])
     ([5 \<mapsto> True, 9 \<mapsto> True], \<lparr>sent = [], generated = 0, logged = []\<rparr>) =
   ([5 \<mapsto> True, 9 \<mapsto> True],
    \<lparr>sent = [MessageConfig 9 (Content ''TEXT'') ''Markdown'',
             MessageConfig 5 (Content ''TEXT'') ''Markdown''],
     generated = 1,
     logged = [LogDailyCount 2, LogDailySendError 9 (Failure ''blocked'')]\<rparr>)"
  using broadcast_reaches_all
    [of "\<lparr>generateResult = (\<lambda>k. Inr (Content ''TEXT'')),
          sendResult = (\<lambda>k c. if k = 0 then (0, Some (Failure ''blocked'')) else (7, None))\<rparr>"
        "\<lparr>sent = [], generated = 0, logged = []\<rparr>" "Content ''TEXT''"
        "[5 \<mapsto> True, 9 \<mapsto> True]" "[9, 5]"]
  by (simp add: rangeOrder_def sendDailyAnalytics_def aiService_GenerateAnalytics_def
      log_Printf_def bot_Send_def NewMessage_def insert_commute)

text \<open>
  Claim C5. On a signal of the daily ticker, when the completion collaborator fails,
  nothing is handed to \<open>bot.Send\<close>, the collaborator has been called once, the
  failure is logged, and the subscriber map is unchanged. Both entry points do the same.
\<close>

theorem broadcast_skipped:
  assumes "generateResult env (generated w) = Inl err"
  shows "select_cmd env (DailyTicker ks) (subscribedChats, w) =
           (subscribedChats,
            w\<lparr>generated := Suc (generated w),
              logged := logged w @ [LogDailyCount (length ks), LogDailyGenerateError err]\<rparr>) \<and>
         select_txt env (DailyTicker ks) (subscribedChats, w) =
           select_cmd env (DailyTicker ks) (subscribedChats, w) \<and>
         sent (snd (select_cmd env (DailyTicker ks) (subscribedChats, w))) = sent w"
  using assms
  by (simp add: sendDailyAnalytics_def aiService_GenerateAnalytics_def log_Printf_def)

theorem broadcast_skipped_witness:
  "select_cmd
     \<lparr>generateResult = (\<lambda>k. Inl (Failure ''timeout'')), sendResult = (\<lambda>k c. (7, None))\<rparr>
     (DailyTicker [9, 5])
     ([5 \<mapsto> True, 9 \<mapsto> True], \<lparr>sent = [], generated = 0, logged = []\<rparr>) =
   ([5 \<mapsto> True, 9 \<mapsto> True],
    \<lparr>sent = [], generated = 1,
     logged = [LogDailyCount 2, LogDailyGenerateError (Failure ''timeout'')]\<rparr>)"
  using broadcast_skipped
    [of "\<lparr>generateResult = (\<lambda>k. Inl (Failure ''timeout'')), sendResult = (\<lambda>k c. (7, None))\<rparr>"
        "\<lparr>sent = [], generated = 0, logged = []\<rparr>" "Failure ''timeout''"
        "[9, 5]" "[5 \<mapsto> True, 9 \<mapsto> True]"]
  by simp

section \<open>Commands of callers other than the administrator\<close>

text \<open>
  Claim C6. For a sender who is not the administrator, each of the commands subscribe,
  unsubscribe and analytics is answered with the fixed refusal, sent to the chat of the
  message, and nothing else happens: the subscriber map, the count of calls of the
  completion collaborator and the log are unchanged. This holds in both entry points.
\<close>

theorem refusal_for_others:
  assumes "FromID message \<noteq> ADMIN_USER_ID"
    and "c \<in> {''subscribe'', ''unsubscribe'', ''analytics''}"
  shows "(commandIs_cmd c message \<longrightarrow>
            handleMessage_cmd env message subscribedChats w =
              (subscribedChats,
               w\<lparr>sent := sent w @ [NewMessage (ChatID message) AdminOnlyText]\<rparr>)) \<and>
         (commandIs_txt c message \<longrightarrow>
            handleMessage_txt env message subscribedChats w =
              (subscribedChats,
               w\<lparr>sent := sent w @ [NewMessage (ChatID message) AdminOnlyText]\<rparr>))"
  using assms
  by (auto simp add: commandIs_cmd_def commandIs_txt_def handleMessage_cmd_def Let_def
      handleMessage_txt_def bot_Send_def)

theorem refusal_for_others_witness:
  "handleMessage_cmd
     \<lparr>generateResult = (\<lambda>k. Inr (Content ''TEXT'')), sendResult = (\<lambda>k c. (7, None))\<rparr>
     \<lparr>ChatID = 77, FromID = 12345, Text = ''/subscribe'', Command = ''subscribe''\<rparr>
     Map.empty
     \<lparr>sent = [], generated = 0, logged = []\<rparr> =
   (Map.empty, \<lparr>sent = [MessageConfig 77 AdminOnlyText []], generated = 0, logged = []\<rparr>) \<and>
   handleMessage_txt
     \<lparr>generateResult = (\<lambda>k. Inr (Content ''TEXT'')), sendResult = (\<lambda>k c. (7, None))\<rparr>
     \<lparr>ChatID = 77, FromID = 12345, Text = ''/subscribe'', Command = ''subscribe''\<rparr>
     Map.empty
     \<lparr>sent = [], generated = 0, logged = []\<rparr> =
   (Map.empty, \<lparr>sent = [MessageConfig 77 AdminOnlyText []], generated = 0, logged = []\<rparr>)"
  using refusal_for_others
    [of "\<lparr>ChatID = 77, FromID = 12345, Text = ''/subscribe'', Command = ''subscribe''\<rparr>"
        "''subscribe''"
        "\<lparr>generateResult = (\<lambda>k. Inr (Content ''TEXT'')), sendResult = (\<lambda>k c. (7, None))\<rparr>"
        Map.empty "\<lparr>sent = [], generated = 0, logged = []\<rparr>"]
  by (simp add: ADMIN_USER_ID_def commandIs_cmd_def commandIs_txt_def NewMessage_def)

section \<open>Input that is no command\<close>

text \<open>
  Claim C7, as amended. An update without a message is ignored by both entry points. A
  message that is none of the four commands is ignored by the \<open>_cmd\<close> entry point:
  nothing is sent and nothing changes. The \<open>_txt\<close> entry point answers it with one
  fixed message, the refusal for a sender who is not the administrator and the
  unknown-command text for the administrator, and changes nothing else; the subscriber
  map is unchanged in both.
\<close>

theorem unrecognized_input:
  "select_cmd env (Update None) st = st \<and> select_txt env (Update None) st = st \<and>
   (\<not> (\<exists>c \<in> set commandWords. commandIs_cmd c message) \<longrightarrow>
      handleMessage_cmd env message subscribedChats w = (subscribedChats, w)) \<and>
   (\<not> (\<exists>c \<in> set commandWords. commandIs_txt c message) \<longrightarrow>
      handleMessage_txt env message subscribedChats w =
        (subscribedChats,
         w\<lparr>sent := sent w @
             [NewMessage (ChatID message)
                (if FromID message = ADMIN_USER_ID then UnknownCommandText
                 else AdminOnlyText)]\<rparr>))"
  by (cases st)
     (auto simp add: commandWords_def commandIs_cmd_def commandIs_txt_def handleMessage_cmd_def Let_def
      handleMessage_txt_def bot_Send_def)

theorem unrecognized_input_witness:
  "handleMessage_cmd
     \<lparr>generateResult = (\<lambda>k. Inr (Content ''TEXT'')), sendResult = (\<lambda>k c. (7, None))\<rparr>
     \<lparr>ChatID = 449066543, FromID = 449066543, Text = ''/help'', Command = ''help''\<rparr>
     [5 \<mapsto> True]
     \<lparr>sent = [], generated = 0, logged = []\<rparr> =
   ([5 \<mapsto> True], \<lparr>sent = [], generated = 0, logged = []\<rparr>) \<and>
   handleMessage_txt
     \<lparr>generateResult = (\<lambda>k. Inr (Content ''TEXT'')), sendResult = (\<lambda>k c. (7, None))\<rparr>
     \<lparr>ChatID = 449066543, FromID = 449066543, Text = ''/help'', Command = ''help''\<rparr>
     [5 \<mapsto> True]
     \<lparr>sent = [], generated = 0, logged = []\<rparr> =
   ([5 \<mapsto> True],
    \<lparr>sent = [MessageConfig 449066543 UnknownCommandText []], generated = 0, logged = []\<rparr>)"
  using unrecognized_input
    [of "\<lparr>generateResult = (\<lambda>k. Inr (Content ''TEXT'')), sendResult = (\<lambda>k c. (7, None))\<rparr>"
        "(Map.empty, \<lparr>sent = [], generated = 0, logged = []\<rparr>)"
        "\<lparr>ChatID = 449066543, FromID = 449066543, Text = ''/help'', Command = ''help''\<rparr>"
        "[5 \<mapsto> True]" "\<lparr>sent = [], generated = 0, logged = []\<rparr>"]
  by (simp add: ADMIN_USER_ID_def commandWords_def commandIs_cmd_def commandIs_txt_def
      NewMessage_def)

text \<open>
  The \<open>_txt\<close> entry point answers a plain \<open>hello\<close>: with the unknown-command text
  when the administrator sends it, with the refusal when somebody else does.
\<close>

theorem unrecognized_input_answered_counterexample:
  "sent (snd (handleMessage_txt
     \<lparr>generateResult = (\<lambda>k. Inr (Content ''TEXT'')), sendResult = (\<lambda>k c. (7, None))\<rparr>
     \<lparr>ChatID = 449066543, FromID = 449066543, Text = ''hello'', Command = []\<rparr>
     Map.empty
     \<lparr>sent = [], generated = 0, logged = []\<rparr>)) =
     [MessageConfig 449066543 UnknownCommandText []] \<and>
   sent (snd (handleMessage_txt
     \<lparr>generateResult = (\<lambda>k. Inr (Content ''TEXT'')), sendResult = (\<lambda>k c. (7, None))\<rparr>
     \<lparr>ChatID = 77, FromID = 12345, Text = ''hello'', Command = []\<rparr>
     Map.empty
     \<lparr>sent = [], generated = 0, logged = []\<rparr>)) =
     [MessageConfig 77 AdminOnlyText []]"
  by (simp add: handleMessage_txt_def ADMIN_USER_ID_def Let_def bot_Send_def NewMessage_def)

section \<open>Subscribing and unsubscribing\<close>

lemma count_list_distinct:
  "distinct ks \<Longrightarrow> count_list ks x = (if x \<in> set ks then 1 else 0)"
  by (induction ks) auto

lemma handleMessage_cmd_subscribe:
  assumes "FromID message = ADMIN_USER_ID" "commandIs_cmd ''subscribe'' message"
  shows "handleMessage_cmd env message subscribedChats w =
     (subscribedChats(ChatID message \<mapsto> True),
      w\<lparr>sent := sent w @ [NewMessage (ChatID message) SubscribedText]\<rparr>)"
  using assms
  by (simp add: commandIs_cmd_def handleMessage_cmd_def Let_def bot_Send_def)

lemma handleMessage_txt_subscribe:
  assumes "FromID message = ADMIN_USER_ID" "commandIs_txt ''subscribe'' message"
  shows "handleMessage_txt env message subscribedChats w =
     (subscribedChats(ChatID message \<mapsto> True),
      w\<lparr>sent := sent w @ [NewMessage (ChatID message) SubscribedText]\<rparr>)"
  using assms
  by (simp add: commandIs_txt_def handleMessage_txt_def Let_def bot_Send_def)

lemma handleMessage_cmd_unsubscribe:
  assumes "FromID message = ADMIN_USER_ID" "commandIs_cmd ''unsubscribe'' message"
  shows "handleMessage_cmd env message subscribedChats w =
     (subscribedChats(ChatID message := None),
      w\<lparr>sent := sent w @ [NewMessage (ChatID message) UnsubscribedText]\<rparr>)"
  using assms
  by (simp add: commandIs_cmd_def handleMessage_cmd_def Let_def bot_Send_def)

lemma handleMessage_txt_unsubscribe:
  assumes "FromID message = ADMIN_USER_ID" "commandIs_txt ''unsubscribe'' message"
  shows "handleMessage_txt env message subscribedChats w =
     (subscribedChats(ChatID message := None),
      w\<lparr>sent := sent w @ [NewMessage (ChatID message) UnsubscribedText]\<rparr>)"
  using assms
  by (simp add: commandIs_txt_def handleMessage_txt_def Let_def bot_Send_def)

lemma one_entry:
  "rangeOrder (m(k \<mapsto> v)) ks \<Longrightarrow> count_list ks k = 1"
  by (simp add: rangeOrder_def count_list_distinct)

text \<open>
  Claim C8. When the administrator subscribes, the chat of the message is in the
  subscriber map; subscribing a second time leaves the map as the first left it, and
  every \<open>range\<close> over it visits that chat exactly once. When the administrator
  unsubscribes a chat that is not in the map, the map is unchanged. This holds in both
  entry points.
\<close>

theorem subscribe_unsubscribe_idempotent:
  assumes "FromID message = ADMIN_USER_ID"
  shows "(commandIs_cmd ''subscribe'' message \<longrightarrow>
            fst (handleMessage_cmd env message subscribedChats w) =
              subscribedChats(ChatID message \<mapsto> True) \<and>
            fst (handleMessage_cmd env message
                   (fst (handleMessage_cmd env message subscribedChats w))
                   (snd (handleMessage_cmd env message subscribedChats w))) =
              fst (handleMessage_cmd env message subscribedChats w) \<and>
            (\<forall>ks. rangeOrder
                    (fst (handleMessage_cmd env message
                            (fst (handleMessage_cmd env message subscribedChats w))
                            (snd (handleMessage_cmd env message subscribedChats w)))) ks \<longrightarrow>
                  count_list ks (ChatID message) = 1)) \<and>
         (commandIs_txt ''subscribe'' message \<longrightarrow>
            fst (handleMessage_txt env message subscribedChats w) =
              subscribedChats(ChatID message \<mapsto> True) \<and>
            fst (handleMessage_txt env message
                   (fst (handleMessage_txt env message subscribedChats w))
                   (snd (handleMessage_txt env message subscribedChats w))) =
              fst (handleMessage_txt env message subscribedChats w) \<and>
            (\<forall>ks. rangeOrder
                    (fst (handleMessage_txt env message
                            (fst (handleMessage_txt env message subscribedChats w))
                            (snd (handleMessage_txt env message subscribedChats w)))) ks \<longrightarrow>
                  count_list ks (ChatID message) = 1)) \<and>
         (commandIs_cmd ''unsubscribe'' message \<and> ChatID message \<notin> dom subscribedChats \<longrightarrow>
            fst (handleMessage_cmd env message subscribedChats w) = subscribedChats) \<and>
         (commandIs_txt ''unsubscribe'' message \<and> ChatID message \<notin> dom subscribedChats \<longrightarrow>
            fst (handleMessage_txt env message subscribedChats w) = subscribedChats)"
proof -
  have a: "commandIs_cmd ''unsubscribe'' message \<and> ChatID message \<notin> dom subscribedChats \<longrightarrow>
            fst (handleMessage_cmd env message subscribedChats w) = subscribedChats"
    using assms by (auto simp add: handleMessage_cmd_unsubscribe domIff)
  have b: "commandIs_txt ''unsubscribe'' message \<and> ChatID message \<notin> dom subscribedChats \<longrightarrow>
            fst (handleMessage_txt env message subscribedChats w) = subscribedChats"
    using assms by (auto simp add: handleMessage_txt_unsubscribe domIff)
  show ?thesis
    using assms a b
    by (simp add: handleMessage_cmd_subscribe handleMessage_txt_subscribe one_entry)
qed

theorem subscribe_unsubscribe_idempotent_witness:
  "fst (handleMessage_cmd
     \<lparr>generateResult = (\<lambda>k. Inr (Content ''TEXT'')), sendResult = (\<lambda>k c. (7, None))\<rparr>
     \<lparr>ChatID = 449066543, FromID = 449066543, Text = ''/subscribe'', Command = ''subscribe''\<rparr>
     [449066543 \<mapsto> True]
     \<lparr>sent = [], generated = 0, logged = []\<rparr>) = [449066543 \<mapsto> True] \<and>
   fst (handleMessage_txt
     \<lparr>generateResult = (\<lambda>k. Inr (Content ''TEXT'')), sendResult = (\<lambda>k c. (7, None))\<rparr>
     \<lparr>ChatID = 449066543, FromID = 449066543, Text = ''/subscribe'', Command = ''subscribe''\<rparr>
     [449066543 \<mapsto> True]
     \<lparr>sent = [], generated = 0, logged = []\<rparr>) = [449066543 \<mapsto> True] \<and>
   fst (handleMessage_cmd
     \<lparr>generateResult = (\<lambda>k. Inr (Content ''TEXT'')), sendResult = (\<lambda>k c. (7, None))\<rparr>
     \<lparr>ChatID = 449066543, FromID = 449066543, Text = ''/unsubscribe'',
      Command = ''unsubscribe''\<rparr>
     [5 \<mapsto> True]
     \<lparr>sent = [], generated = 0, logged = []\<rparr>) = [5 \<mapsto> True] \<and>
   fst (handleMessage_txt
     \<lparr>generateResult = (\<lambda>k. Inr (Content ''TEXT'')), sendResult = (\<lambda>k c. (7, None))\<rparr>
     \<lparr>ChatID = 449066543, FromID = 449066543, Text = ''/unsubscribe'',
      Command = ''unsubscribe''\<rparr>
     [5 \<mapsto> True]
     \<lparr>sent = [], generated = 0, logged = []\<rparr>) = [5 \<mapsto> True]"
  using subscribe_unsubscribe_idempotent
    [of "\<lparr>ChatID = 449066543, FromID = 449066543, Text = ''/subscribe'',
          Command = ''subscribe''\<rparr>"
        "\<lparr>generateResult = (\<lambda>k. Inr (Content ''TEXT'')), sendResult = (\<lambda>k c. (7, None))\<rparr>"
        "[449066543 \<mapsto> True]" "\<lparr>sent = [], generated = 0, logged = []\<rparr>"]
    subscribe_unsubscribe_idempotent
    [of "\<lparr>ChatID = 449066543, FromID = 449066543, Text = ''/unsubscribe'',
          Command = ''unsubscribe''\<rparr>"
        "\<lparr>generateResult = (\<lambda>k. Inr (Content ''TEXT'')), sendResult = (\<lambda>k c. (7, None))\<rparr>"
        "[5 \<mapsto> True]" "\<lparr>sent = [], generated = 0, logged = []\<rparr>"]
  by (simp add: ADMIN_USER_ID_def commandIs_cmd_def commandIs_txt_def)

section \<open>The completion service without a credential\<close>

lemma main_cmd_started:
  "main_cmd getenv newBotAPI = Started s \<Longrightarrow> apiKey s \<noteq> []"
  by (auto simp add: main_cmd_def NewAIService_cmd_def Let_def split: if_splits option.splits)

text \<open>
  Claim C9, as amended. In \<open>ai_service.go\<close>, when the credential is empty,
  \<open>GenerateAnalytics\<close> returns the local canned report with a nil error and hands
  no request to the HTTP client. When the variable \<open>AI_API_KEY\<close> is empty (and the bot
  token is not), the \<open>_txt\<close> entry point starts, with the service of
  \<open>ai_service.go\<close> holding an empty credential, while the \<open>_cmd\<close> entry point
  stops at \<open>log.Fatal\<close> before it builds its service: whenever it starts, its
  service holds a credential that is not empty.
\<close>

theorem no_credential:
  "(APIKey config = [] \<longrightarrow>
      GenerateAnalytics net systemPrompt dateStr config done =
        (Inr (getLocalAnalytics dateStr), done)) \<and>
   (getenv ''TELEGRAM_BOT_TOKEN'' \<noteq> [] \<and> getenv ''AI_API_KEY'' = [] \<longrightarrow>
      main_txt getenv None = Started (NewAIService getenv) \<and>
      APIKey (NewAIService getenv) = [] \<and>
      main_cmd getenv newBotAPI = Fatal NoAPIKey) \<and>
   (main_cmd getenv newBotAPI = Started s \<longrightarrow> apiKey s \<noteq> [])"
proof -
  have a: "APIKey config = [] \<longrightarrow>
      GenerateAnalytics net systemPrompt dateStr config done =
        (Inr (getLocalAnalytics dateStr), done)"
    by (simp add: GenerateAnalytics_def)
  have b: "getenv ''TELEGRAM_BOT_TOKEN'' \<noteq> [] \<and> getenv ''AI_API_KEY'' = [] \<longrightarrow>
      main_txt getenv None = Started (NewAIService getenv) \<and>
      APIKey (NewAIService getenv) = [] \<and>
      main_cmd getenv newBotAPI = Fatal NoAPIKey"
    by (simp add: main_txt_def main_cmd_def NewAIService_def Let_def)
  have c: "main_cmd getenv newBotAPI = Started s \<longrightarrow> apiKey s \<noteq> []"
    using main_cmd_started by blast
  from a b c show ?thesis by blast
qed

theorem no_credential_witness:
  "GenerateAnalytics
     \<lparr>json_Marshal = (\<lambda>r. Inr ''{}''), http_NewRequest = (\<lambda>u. None),
      client_Do = (\<lambda>r. Inl (Failure ''unreachable'')),
      json_Unmarshal = (\<lambda>b. Inl (Failure ''empty''))\<rparr>
     ''prompt'' ''01.01.2024''
     (NewAIService (\<lambda>k. if k = ''TELEGRAM_BOT_TOKEN'' then ''123:abc'' else [])) [] =
   (Inr (getLocalAnalytics ''01.01.2024''), []) \<and>
   main_txt (\<lambda>k. if k = ''TELEGRAM_BOT_TOKEN'' then ''123:abc'' else []) None =
     Started (NewAIService (\<lambda>k. if k = ''TELEGRAM_BOT_TOKEN'' then ''123:abc'' else [])) \<and>
   main_cmd (\<lambda>k. if k = ''TELEGRAM_BOT_TOKEN'' then ''123:abc'' else []) None = Fatal NoAPIKey"
  using no_credential
    [of "NewAIService (\<lambda>k. if k = ''TELEGRAM_BOT_TOKEN'' then ''123:abc'' else [])"
        "\<lparr>json_Marshal = (\<lambda>r. Inr ''{}''), http_NewRequest = (\<lambda>u. None),
          client_Do = (\<lambda>r. Inl (Failure ''unreachable'')),
          json_Unmarshal = (\<lambda>b. Inl (Failure ''empty''))\<rparr>"
        "''prompt''" "''01.01.2024''" "[]"
        "\<lambda>k. if k = ''TELEGRAM_BOT_TOKEN'' then ''123:abc'' else []" None]
  by (simp add: NewAIService_def)

text \<open>
  With a bot token and no \<open>AI_API_KEY\<close> the \<open>_cmd\<close> entry point does not
  degrade to a local report: it stops.
\<close>

theorem no_credential_fatal_counterexample:
  "main_cmd (\<lambda>k. if k = ''TELEGRAM_BOT_TOKEN'' then ''123:abc'' else []) None = Fatal NoAPIKey"
  by (simp add: main_cmd_def)

section \<open>The market data snapshot\<close>

lemma GetMarketData_returned:
  "GetMarketData s = Returns (d, e) \<Longrightarrow> d \<noteq> None \<and> e = None"
  by (auto simp add: GetMarketData_def Let_def split: outcome.splits)

text \<open>
  Claim C10, at two inputs where the code does not do what the claim says. First: the
  index request is answered with no rows and the currency request with an answer whose
  \<open>cbrf\<close> has no rows; \<open>currResp.Cbrf.Data[0]\<close> panics and \<open>GetMarketData\<close>
  returns nothing. Second: the index request fails, so the stub stands in, and
  \<open>getTopStocks\<close> returns a stock whose change is \<open>NaN\<close> followed by one whose
  change is 1.5; the stock recommended is the first, since no comparison with
  \<open>NaN\<close> holds.
\<close>

theorem GetMarketData_failing_inputs:
  "GetMarketData
     \<lparr>strconv_ParseFloat = (\<lambda>s. Inl (Failure ''syntax'')),
      indexAnswer =
        Decodes [(''securities'', JObject [(''data'', JArray [])]),
                 (''marketdata'', JObject [(''data'', JArray [])])],
      currencyAnswer = Decodes \<lparr>CbrfColumns = [], CbrfData = []\<rparr>,
      getMarketNews = Inr [],
      getTopStocks = Returns (Inl (Failure ''timeout''))\<rparr> = Panics \<and>
   GetMarketData
     \<lparr>strconv_ParseFloat = (\<lambda>s. Inl (Failure ''syntax'')),
      indexAnswer = GetFails (Failure ''timeout''),
      currencyAnswer = GetFails (Failure ''timeout''),
      getMarketNews = Inr [],
      getTopStocks =
        Returns (Inr [\<lparr>Ticker = ''AAAA'', Name = ''A'', Price = Finite 10, Change = NaN,
                       Currency = ''RUB'', SourceURL = []\<rparr>,
                      \<lparr>Ticker = ''BBBB'', Name = ''B'', Price = Finite 20, Change = Finite 1.5,
                       Currency = ''RUB'', SourceURL = []\<rparr>])\<rparr> =
   Returns
     (Some \<lparr>IndexMOEX = Finite 4100, IndexRTS = Finite 1100, USDRate = Finite 90.5,
            EURRate = Finite 98.7,
            TopStocks =
              [\<lparr>Ticker = ''AAAA'', Name = ''A'', Price = Finite 10, Change = NaN,
                Currency = ''RUB'', SourceURL = []\<rparr>,
               \<lparr>Ticker = ''BBBB'', Name = ''B'', Price = Finite 20, Change = Finite 1.5,
                Currency = ''RUB'', SourceURL = []\<rparr>],
            RecommendedStock =
              \<lparr>Ticker = ''AAAA'', Name = ''A'', Price = Finite 10, Change = NaN,
               Currency = ''RUB'', SourceURL = []\<rparr>,
            MarketTrend = ''stable'', MarketNews = []\<rparr>,
      None)"
  by (simp add: GetMarketData_def getMOEXData_def member_def currencyRates_def
      stubMarketData_def Let_def)

end
